theory Spec2Isabelle
  imports Complex_Main "HOL-Library.AList" "HOL-Library.Multiset"
begin

section \<open>Data model\<close>

text \<open>
  The task manager keeps three collections: the task list and the activity log of the
  main application, and the notification feed with its table of active reminders in
  \<open>InternalNotificationManager\<close>. Strings are lists of code units in the range
  U+0000..U+00FF (\<open>CHR 0xED\<close> is the i with acute accent of the CSV header). Instants are
  epoch milliseconds.
\<close>

text \<open>A JavaScript number that holds an instant: \<open>new Date(s).getTime()\<close> is \<open>NaN\<close> for
  a string that is not a date.\<close>

datatype jsnum = NaN | Num int

fun truthy :: "jsnum \<Rightarrow> bool" where
  "truthy NaN = False"
| "truthy (Num n) = (n \<noteq> 0)"

text \<open>\<open>x > c\<close> for a number \<open>x\<close> and a finite \<open>c\<close>: false when \<open>x\<close> is \<open>NaN\<close>.\<close>

fun gt :: "jsnum \<Rightarrow> int \<Rightarrow> bool" where
  "gt NaN c = False"
| "gt (Num n) c = (n > c)"

datatype Priority = Low | Medium | High

record Reminder =
  rem_datetime :: int
  rem_notified :: bool

record Task =
  task_id :: string
  task_title :: string
  task_done :: bool
  task_createdAt :: jsnum
  task_completedAt :: "jsnum option"
  task_priority :: "Priority option"
  task_tags :: "string list option"
  task_reminder :: "Reminder option"

datatype ActivityType =
  Create | Edit | Complete | Uncomplete | Delete | Clear_done | Reset_all | Export | Import

record Activity =
  act_id :: string
  act_type :: ActivityType
  act_taskId :: "string option"
  act_taskTitle :: "string option"
  act_timestamp :: jsnum
  act_details :: "string option"

datatype NotificationType = Reminder_n | Task_completed | System_n | Warning_n | Info_n

datatype ActionStyle = Primary | Secondary | Success | Danger | Warning_s

record NotificationAction =
  na_label :: string
  na_action :: string
  na_style :: "ActionStyle option"

record Notification =
  n_id :: string
  n_type :: NotificationType
  n_title :: string
  n_message :: string
  n_timestamp :: int
  n_read :: bool
  n_taskId :: "string option"
  n_actions :: "NotificationAction list option"

record ActiveReminder =
  ar_taskId :: string
  ar_taskTitle :: string
  ar_datetime :: int
  ar_timeoutId :: nat

text \<open>A pending \<open>window.setTimeout\<close> of \<open>scheduleReminder\<close>: the task identifier and title its
  callback closes over, and the instant it is due.\<close>

record Timer =
  tm_taskId :: string
  tm_taskTitle :: string
  tm_due :: int

text \<open>What the user is shown: the calls of \<open>showError\<close>, \<open>showToast\<close> and \<open>showSuccess\<close>.\<close>

datatype Message =
  ShowError string string
| ShowToast string string
| ShowSuccess string string

text \<open>
  The browser around one synchronous call: the clock (\<open>Date.now()\<close>, read as one instant
  for the whole call), the identifiers drawn from \<open>Math.random\<close> (\<open>uid env k\<close> is the
  \<open>k\<close>-th draw), the date parser \<open>new Date(s).getTime()\<close>, \<open>toLocaleString\<close>, and the
  offset of local time from UTC in milliseconds (taken as constant: no daylight saving).
\<close>

record Env =
  now :: int
  uid :: "nat \<Rightarrow> string"
  parseDate :: "string \<Rightarrow> jsnum"
  toLocaleString :: "int \<Rightarrow> string"
  tzOffset :: int

text \<open>The filter of the task view: \<open>"all" | "active" | "done" | "recent" | "old"\<close>.\<close>

datatype Filter = FilterAll | FilterActive | FilterDone | FilterRecent | FilterOld

text \<open>
  The mutable state: the fields \<open>tasks\<close>, \<open>filter\<close>, \<open>searchQuery\<close>, \<open>selectedTags\<close>,
  \<open>availableTags\<close>, \<open>activities\<close> and \<open>tagFilter\<close> of the application's \<open>state\<close>,
  \<open>notifications\<close> and \<open>activeReminders\<close> of the
  notification manager (a JavaScript \<open>Map\<close>, here an association list in insertion
  order), the browser's table of pending timeouts with the next handle it will hand out,
  the messages shown so far, and the number of random identifiers drawn so far.
\<close>

record World =
  tasks :: "Task list"
  filter_state :: Filter
  searchQuery :: string
  selectedTags :: "string list"
  availableTags :: "string list"
  activities :: "Activity list"
  tagFilter :: string
  notifications :: "Notification list"
  activeReminders :: "(string \<times> ActiveReminder) list"
  timers :: "(nat \<times> Timer) list"
  nextTimeoutId :: nat
  shown :: "Message list"
  draws :: nat

section \<open>Activity log\<close>

text \<open>\<open>addActivity\<close>: build the entry, \<open>unshift\<close> it, keep the first 100.\<close>

definition addActivity ::
  "Env \<Rightarrow> ActivityType \<Rightarrow> string option \<Rightarrow> string option \<Rightarrow> string option \<Rightarrow> World \<Rightarrow> World" where
  "addActivity env ty taskId taskTitle details w =
     (let activity = \<lparr>act_id = uid env (draws w), act_type = ty, act_taskId = taskId,
                       act_taskTitle = taskTitle, act_timestamp = Num (now env),
                       act_details = details\<rparr>;
          acts = activity # activities w
      in w\<lparr>activities := (if length acts > 100 then take 100 acts else acts),
            draws := Suc (draws w)\<rparr>)"

text \<open>The entry a call of \<open>addActivity\<close> builds in a given state.\<close>

definition newActivity ::
  "Env \<Rightarrow> ActivityType \<Rightarrow> string option \<Rightarrow> string option \<Rightarrow> string option \<Rightarrow> World \<Rightarrow> Activity" where
  "newActivity env ty taskId taskTitle details w =
     \<lparr>act_id = uid env (draws w), act_type = ty, act_taskId = taskId,
      act_taskTitle = taskTitle, act_timestamp = Num (now env),
      act_details = details\<rparr>"

text \<open>A sequence of \<open>addActivity\<close> calls, each with its own clock reading and arguments.\<close>

type_synonym ActivityCall =
  "Env \<times> ActivityType \<times> string option \<times> string option \<times> string option"

fun addActivities :: "ActivityCall list \<Rightarrow> World \<Rightarrow> World" where
  "addActivities [] w = w"
| "addActivities ((env, ty, taskId, taskTitle, details) # cs) w =
     addActivities cs (addActivity env ty taskId taskTitle details w)"

section \<open>Notification feed\<close>

text \<open>\<open>addNotification\<close>: \<open>unshift\<close>, then keep the first \<open>MAX_NOTIFICATIONS\<close>.\<close>

definition MAX_NOTIFICATIONS :: nat where
  "MAX_NOTIFICATIONS = 50"

definition addNotification :: "Notification \<Rightarrow> World \<Rightarrow> World" where
  "addNotification notification w =
     (let ns = notification # notifications w
      in w\<lparr>notifications :=
            (if length ns > MAX_NOTIFICATIONS then take MAX_NOTIFICATIONS ns else ns)\<rparr>)"

fun addNotifications :: "Notification list \<Rightarrow> World \<Rightarrow> World" where
  "addNotifications [] w = w"
| "addNotifications (n # ns) w = addNotifications ns (addNotification n w)"

section \<open>Reminder scheduler\<close>

text \<open>Template literals print a number in decimal.\<close>

fun digits :: "nat \<Rightarrow> string" where
  "digits n = (if n < 10 then [char_of (48 + n)] else digits (n div 10) @ [char_of (48 + n mod 10)])"

definition numToString :: "int \<Rightarrow> string" where
  "numToString n = (if n < 0 then CHR ''-'' # digits (nat (- n)) else digits (nat n))"

text \<open>\<open>cancelReminder\<close>: when the table has a reminder for the task, \<open>clearTimeout\<close> its
  handle and delete the entry.\<close>

definition cancelReminder :: "string \<Rightarrow> World \<Rightarrow> World" where
  "cancelReminder taskId w =
     (case map_of (activeReminders w) taskId of
        None \<Rightarrow> w
      | Some reminder \<Rightarrow>
          w\<lparr>timers := AList.delete (ar_timeoutId reminder) (timers w),
            activeReminders := AList.delete taskId (activeReminders w)\<rparr>)"

text \<open>
  \<open>scheduleReminder\<close>: refuse a target that is not in the future; otherwise cancel the
  task's reminder, register a timeout (the browser hands out \<open>nextTimeoutId\<close>) and store
  the reminder under the task identifier.
\<close>

definition scheduleReminder :: "Env \<Rightarrow> string \<Rightarrow> string \<Rightarrow> int \<Rightarrow> World \<Rightarrow> bool \<times> World" where
  "scheduleReminder env taskId taskTitle datetime w =
     (let delay = datetime - now env
      in if delay \<le> 0
         then (False,
               w\<lparr>shown := shown w @
                   [ShowError (''Fecha inv'' @ [CHR 0xE1] @ ''lida'')
                      ''El recordatorio debe ser programado para una fecha futura'']\<rparr>)
         else
           (let w1 = cancelReminder taskId w;
                timeoutId = nextTimeoutId w1;
                w2 = w1\<lparr>timers := timers w1 @
                          [(timeoutId, \<lparr>tm_taskId = taskId, tm_taskTitle = taskTitle,
                                        tm_due = now env + delay\<rparr>)],
                        nextTimeoutId := Suc timeoutId\<rparr>;
                w3 = w2\<lparr>activeReminders :=
                          AList.update taskId
                            \<lparr>ar_taskId = taskId, ar_taskTitle = taskTitle,
                             ar_datetime = datetime, ar_timeoutId = timeoutId\<rparr>
                            (activeReminders w2)\<rparr>
            in (True,
                w3\<lparr>shown := shown w3 @
                     [ShowToast (''Recordatorio programado para '' @ toLocaleString env datetime)
                        ''success'']\<rparr>)))"

text \<open>\<open>snoozeReminder\<close>: a toast, then \<open>scheduleReminder\<close> at \<open>now + minutes * 60 * 1000\<close>.\<close>

definition snoozeReminder :: "Env \<Rightarrow> string \<Rightarrow> string \<Rightarrow> int \<Rightarrow> World \<Rightarrow> bool \<times> World" where
  "snoozeReminder env taskId taskTitle minutes w =
     (let snoozeTime = now env + minutes * 60 * 1000;
          w1 = w\<lparr>shown := shown w @
                  [ShowToast (''Recordatorio pospuesto '' @ numToString minutes @ '' minutos'')
                     ''info'']\<rparr>
      in scheduleReminder env taskId taskTitle snoozeTime w1)"

text \<open>\<open>generateId\<close>: \<open>notif_\<close>, a random string, \<open>_\<close> and the clock.\<close>

definition generateId :: "Env \<Rightarrow> World \<Rightarrow> string" where
  "generateId env w = ''notif_'' @ uid env (draws w) @ ''_'' @ numToString (now env)"

text \<open>\<open>createReminderNotification\<close> and \<open>createTaskCompletedNotification\<close>. The pictograph
  that starts each title in the source is outside the range of code units modelled here
  and is left out; \<open>animateBell\<close> only touches the page.\<close>

definition createReminderNotification :: "Env \<Rightarrow> string \<Rightarrow> string \<Rightarrow> World \<Rightarrow> World" where
  "createReminderNotification env taskId taskTitle w =
     addNotification
       \<lparr>n_id = generateId env w, n_type = Reminder_n,
        n_title = '' Recordatorio de Tarea'',
        n_message = ''Es hora de: '' @ taskTitle,
        n_timestamp = now env, n_read = False, n_taskId = Some taskId,
        n_actions = Some
          [\<lparr>na_label = ''Ver tarea'', na_action = ''view_task'', na_style = Some Primary\<rparr>,
           \<lparr>na_label = ''Posponer 10 min'', na_action = ''snooze'', na_style = Some Secondary\<rparr>]\<rparr>
       (w\<lparr>draws := Suc (draws w)\<rparr>)"

definition createTaskCompletedNotification :: "Env \<Rightarrow> string \<Rightarrow> World \<Rightarrow> World" where
  "createTaskCompletedNotification env taskTitle w =
     addNotification
       \<lparr>n_id = generateId env w, n_type = Task_completed,
        n_title = '' Tarea Completada'',
        n_message = [CHR 0xA1] @ ''Felicidades! Has completado: '' @ taskTitle,
        n_timestamp = now env, n_read = False, n_taskId = None, n_actions = None\<rparr>
       (w\<lparr>draws := Suc (draws w)\<rparr>)"

text \<open>
  The callback of a reminder's timeout, run by the browser for the pending handle \<open>k\<close>:
  the timeout is then no longer pending, the callback creates the reminder notification
  and deletes the task's entry from the table. No condition on the clock is imposed, so
  that what is proved of sequences of calls holds whenever the browser runs the callback.
\<close>

definition fireTimer :: "Env \<Rightarrow> nat \<Rightarrow> World \<Rightarrow> World" where
  "fireTimer env k w =
     (case map_of (timers w) k of
        None \<Rightarrow> w
      | Some tm \<Rightarrow>
          (let w1 = w\<lparr>timers := AList.delete k (timers w)\<rparr>;
               w2 = createReminderNotification env (tm_taskId tm) (tm_taskTitle tm) w1
           in w2\<lparr>activeReminders := AList.delete (tm_taskId tm) (activeReminders w2)\<rparr>))"

text \<open>The pending timeouts whose callback is for a given task.\<close>

definition pendingTimers :: "string \<Rightarrow> World \<Rightarrow> (nat \<times> Timer) list" where
  "pendingTimers taskId w = filter (\<lambda>(k, tm). tm_taskId tm = taskId) (timers w)"

text \<open>The calls on the scheduler, each with the browser at the time of the call, and a
  sequence of them.\<close>

datatype ReminderCall =
  ScheduleReminder Env string string int
| CancelReminder string
| SnoozeReminder Env string string int
| FireTimer Env nat

fun reminderCall :: "ReminderCall \<Rightarrow> World \<Rightarrow> World" where
  "reminderCall (ScheduleReminder env taskId taskTitle datetime) w =
     snd (scheduleReminder env taskId taskTitle datetime w)"
| "reminderCall (CancelReminder taskId) w = cancelReminder taskId w"
| "reminderCall (SnoozeReminder env taskId taskTitle minutes) w =
     snd (snoozeReminder env taskId taskTitle minutes w)"
| "reminderCall (FireTimer env k) w = fireTimer env k w"

fun reminderCalls :: "ReminderCall list \<Rightarrow> World \<Rightarrow> World" where
  "reminderCalls [] w = w"
| "reminderCalls (c # cs) w = reminderCalls cs (reminderCall c w)"

text \<open>The state when the page has loaded and nothing is stored: empty collections, the
  four seed tags, no filter, no pending timeout.\<close>

definition initialWorld :: World where
  "initialWorld =
     \<lparr>tasks = [], filter_state = FilterAll, searchQuery = [], selectedTags = [],
      availableTags = [''Trabajo'', ''Personal'', ''Estudio'', ''Urgente''],
      activities = [], tagFilter = ''all'', notifications = [], activeReminders = [],
      timers = [],
      nextTimeoutId = 1, shown = [], draws = 0\<rparr>"

text \<open>
  The scheduler's invariant: pending timeouts have distinct handles, all below the next
  handle, and each is the one recorded in the table under its task identifier.
\<close>

definition schedulerInv :: "World \<Rightarrow> bool" where
  "schedulerInv w =
     (distinct (map fst (timers w)) \<and>
      list_all (\<lambda>(k, tm). k < nextTimeoutId w \<and>
                  (case map_of (activeReminders w) (tm_taskId tm) of
                     None \<Rightarrow> False
                   | Some r \<Rightarrow> ar_timeoutId r = k))
        (timers w))"

section \<open>Tasks\<close>

text \<open>\<open>String.prototype.trim\<close>: the white space among the code units modelled.\<close>

definition isSpace :: "char \<Rightarrow> bool" where
  "isSpace c = (c \<in> set [CHR 0x09, CHR 0x0A, CHR 0x0B, CHR 0x0C, CHR 0x0D, CHR 0x20, CHR 0xA0])"

definition trim :: "string \<Rightarrow> string" where
  "trim s = rev (dropWhile isSpace (rev (dropWhile isSpace s)))"

text \<open>\<open>toLowerCase\<close> on the code units modelled, and \<open>s.includes(sub)\<close>.\<close>

definition lowerChar :: "char \<Rightarrow> char" where
  "lowerChar c =
     (let n = (of_char c :: nat)
      in if (65 \<le> n \<and> n \<le> 90) \<or> (192 \<le> n \<and> n \<le> 222 \<and> n \<noteq> 215)
         then char_of (n + 32) else c)"

definition toLowerCase :: "string \<Rightarrow> string" where
  "toLowerCase s = map lowerChar s"

fun includesStr :: "string \<Rightarrow> string \<Rightarrow> bool" where
  "includesStr [] sub = (sub = [])"
| "includesStr (x # xs) sub = (take (length sub) (x # xs) = sub \<or> includesStr xs sub)"

text \<open>\<open>x < c\<close> for a number \<open>x\<close> and a finite \<open>c\<close>: false when \<open>x\<close> is \<open>NaN\<close>.\<close>

fun lt :: "jsnum \<Rightarrow> int \<Rightarrow> bool" where
  "lt NaN c = False"
| "lt (Num n) c = (n < c)"

text \<open>
  \<open>filtered.sort((a, b) => b.createdAt - a.createdAt)\<close>: the sort is stable and puts the
  newest task first. With a \<open>NaN\<close> among the instants the comparator is not consistent and
  ECMAScript leaves the order to the implementation; the model then places such a task as
  if its instant were 0.
\<close>

definition newestFirstKey :: "Task \<Rightarrow> int" where
  "newestFirstKey t = (case task_createdAt t of NaN \<Rightarrow> 0 | Num c \<Rightarrow> - c)"

definition sortTasks :: "Task list \<Rightarrow> Task list" where
  "sortTasks ts = sort_key newestFirstKey ts"

text \<open>
  \<open>visibleTasks\<close>. The variable \<open>filtered\<close> starts as \<open>state.tasks\<close> itself; each filter
  that applies replaces it by a fresh array. The final \<open>sort\<close> works in place, so when no
  filter has applied it sorts \<open>state.tasks\<close>. The pair \<open>(filtered, fresh)\<close> records whether
  \<open>filtered\<close> is a fresh array; the result is the array returned and the state.
\<close>

definition visibleTasks :: "Env \<Rightarrow> World \<Rightarrow> Task list \<times> World" where
  "visibleTasks env w =
     (let (filtered, fresh) =
            (case filter_state w of
               FilterActive \<Rightarrow> (filter (\<lambda>t. \<not> task_done t) (tasks w), True)
             | FilterDone \<Rightarrow> (filter (\<lambda>t. task_done t) (tasks w), True)
             | FilterRecent \<Rightarrow>
                 (filter (\<lambda>t. gt (task_createdAt t) (now env - 24 * 60 * 60 * 1000)) (tasks w),
                  True)
             | FilterOld \<Rightarrow>
                 (filter (\<lambda>t. lt (task_createdAt t) (now env - 7 * 24 * 60 * 60 * 1000)) (tasks w),
                  True)
             | FilterAll \<Rightarrow> (tasks w, False));
          (filtered, fresh) =
            (if searchQuery w \<noteq> []
             then (filter (\<lambda>t. includesStr (toLowerCase (task_title t))
                                   (toLowerCase (searchQuery w))) filtered,
                   True)
             else (filtered, fresh));
          (filtered, fresh) =
            (if tagFilter w \<noteq> [] \<and> tagFilter w \<noteq> ''all''
             then (filter (\<lambda>t. case task_tags t of
                                  None \<Rightarrow> False
                                | Some tags \<Rightarrow> tagFilter w \<in> set tags) filtered,
                   True)
             else (filtered, fresh));
          (filtered, fresh) =
            (if length (selectedTags w) > 0
             then (filter (\<lambda>t. case task_tags t of
                                  None \<Rightarrow> False
                                | Some tags \<Rightarrow> list_ex (\<lambda>tag. tag \<in> set (selectedTags w)) tags)
                     filtered,
                   True)
             else (filtered, fresh));
          sorted = sortTasks filtered
      in (sorted, if fresh then w else w\<lparr>tasks := sorted\<rparr>))"

text \<open>\<open>render\<close>: what it does to the state is what \<open>visibleTasks\<close> does; the rest draws
  the page and mirrors the state to storage.\<close>

definition render :: "Env \<Rightarrow> World \<Rightarrow> World" where
  "render env w = snd (visibleTasks env w)"

text \<open>No filter of the view applies: \<open>visibleTasks\<close> sorts \<open>state.tasks\<close> itself.\<close>

definition viewUnfiltered :: "World \<Rightarrow> bool" where
  "viewUnfiltered w =
     (filter_state w = FilterAll \<and> searchQuery w = [] \<and>
      (tagFilter w = [] \<or> tagFilter w = ''all'') \<and> selectedTags w = [])"

text \<open>Every creation instant is a number, and the list is in the order the sort gives:
  newest first.\<close>

definition createdAtNumbers :: "Task list \<Rightarrow> bool" where
  "createdAtNumbers ts = list_all (\<lambda>t. task_createdAt t \<noteq> NaN) ts"

definition newestFirst :: "Task list \<Rightarrow> bool" where
  "newestFirst ts = sorted (map newestFirstKey ts)"

text \<open>
  \<open>getReminderDatetime\<close> reads the date and time inputs of the form: no reminder when one
  of them is empty, or when the instant they give is not a date or not in the future.
\<close>

definition getReminderDatetime :: "Env \<Rightarrow> string \<Rightarrow> string \<Rightarrow> int option" where
  "getReminderDatetime env dateValue timeValue =
     (if dateValue = [] \<or> timeValue = [] then None
      else (case parseDate env (dateValue @ ''T'' @ timeValue) of
              NaN \<Rightarrow> None
            | Num reminderDatetime \<Rightarrow>
                if reminderDatetime \<le> now env then None else Some reminderDatetime))"

text \<open>
  \<open>addTask\<close>, with the contents of the two reminder inputs as arguments. A reminder
  instant of 0 is falsy and counts as no reminder.
\<close>

definition addTask :: "Env \<Rightarrow> string \<Rightarrow> string \<Rightarrow> string \<Rightarrow> World \<Rightarrow> World" where
  "addTask env title dateValue timeValue w =
     (let trimmed = trim title
      in if trimmed = [] then w
         else
           (let reminderDatetime =
                  (case getReminderDatetime env dateValue timeValue of
                     None \<Rightarrow> None
                   | Some d \<Rightarrow> if d = 0 then None else Some d);
                newTask =
                  \<lparr>task_id = uid env (draws w), task_title = trimmed, task_done = False,
                   task_createdAt = Num (now env), task_completedAt = None,
                   task_priority = None, task_tags = Some (selectedTags w),
                   task_reminder =
                     (case reminderDatetime of
                        None \<Rightarrow> None
                      | Some d \<Rightarrow> Some \<lparr>rem_datetime = d, rem_notified = False\<rparr>)\<rparr>;
                w1 = w\<lparr>draws := Suc (draws w)\<rparr>;
                w2 = (case reminderDatetime of
                        None \<Rightarrow> w1
                      | Some d \<Rightarrow>
                          snd (scheduleReminder env (task_id newTask) (task_title newTask) d w1));
                w3 = w2\<lparr>tasks := newTask # tasks w2, selectedTags := []\<rparr>;
                activityDetails =
                  (case reminderDatetime of
                     None \<Rightarrow> None
                   | Some d \<Rightarrow> Some (''Con recordatorio: '' @ toLocaleString env d))
            in render env
                 (addActivity env Create (Some (task_id newTask)) (Some (task_title newTask))
                    activityDetails w3)))"

text \<open>
  \<open>toggleTask\<close> maps over the tasks in order; the callback's effects on the activity log
  and on the notification manager happen as each matching task is visited. The new array
  is assigned to \<open>state.tasks\<close> and \<open>render\<close> is called.
\<close>

definition toggleOne :: "Env \<Rightarrow> Task \<Rightarrow> World \<Rightarrow> Task \<times> World" where
  "toggleOne env t w =
     (let newDone = \<not> task_done t;
          w1 = addActivity env (if newDone then Complete else Uncomplete)
                 (Some (task_id t)) (Some (task_title t)) None w;
          w2 = (if newDone
                then createTaskCompletedNotification env (task_title t)
                       (case task_reminder t of
                          None \<Rightarrow> w1
                        | Some r \<Rightarrow> cancelReminder (task_id t) w1)
                else (case task_reminder t of
                        None \<Rightarrow> w1
                      | Some r \<Rightarrow>
                          if rem_datetime r > now env
                          then snd (scheduleReminder env (task_id t) (task_title t)
                                      (rem_datetime r) w1)
                          else w1))
      in (t\<lparr>task_done := newDone,
             task_completedAt := (if newDone then Some (Num (now env)) else None)\<rparr>,
          w2))"

fun toggleTasks :: "Env \<Rightarrow> string \<Rightarrow> Task list \<Rightarrow> World \<Rightarrow> Task list \<times> World" where
  "toggleTasks env i [] w = ([], w)"
| "toggleTasks env i (t # ts) w =
     (if task_id t = i
      then (let (t', w1) = toggleOne env t w;
                (ts', w2) = toggleTasks env i ts w1
            in (t' # ts', w2))
      else (let (ts', w1) = toggleTasks env i ts w
            in (t # ts', w1)))"

definition toggleTask :: "Env \<Rightarrow> string \<Rightarrow> World \<Rightarrow> World" where
  "toggleTask env i w =
     (let (ts', w') = toggleTasks env i (tasks w) w
      in render env (w'\<lparr>tasks := ts'\<rparr>))"

text \<open>
  \<open>editTaskTitle\<close>, with the answer of the input dialog as arguments: whether it was
  confirmed, and its value. The dialog is modal; the task found before it opens and the
  list mapped after it closes are those of the same state.
\<close>

definition editTaskTitle :: "Env \<Rightarrow> string \<Rightarrow> bool \<Rightarrow> string \<Rightarrow> World \<Rightarrow> World" where
  "editTaskTitle env i isConfirmed val w =
     (case find (\<lambda>x. task_id x = i) (tasks w) of
        None \<Rightarrow>
          w\<lparr>shown := shown w @
               [ShowError ''Tarea no encontrada'' ''No se pudo encontrar la tarea solicitada.'']\<rparr>
      | Some t \<Rightarrow>
          if isConfirmed \<and> val \<noteq> []
          then (let trimmed = trim val
                in if trimmed = []
                   then w\<lparr>shown := shown w @
                            [ShowError (''T'' @ [CHR 0xED] @ ''tulo inv'' @ [CHR 0xE1] @ ''lido'')
                               (''El t'' @ [CHR 0xED] @ ''tulo no puede estar vac'' @ [CHR 0xED] @ ''o.'')]\<rparr>
                   else
                     (let w1 = addActivity env Edit (Some (task_id t)) (Some trimmed)
                                 (Some (''De: '' @ [CHR 0x22] @ task_title t @ [CHR 0x22] @ '' a: '' @
                                        [CHR 0x22] @ trimmed @ [CHR 0x22]))
                                 w;
                          w2 = render env
                                 (w1\<lparr>tasks :=
                                       map (\<lambda>x. if task_id x = i then x\<lparr>task_title := trimmed\<rparr>
                                                else x)
                                         (tasks w1)\<rparr>)
                      in w2\<lparr>shown := shown w2 @
                               [ShowToast ''Tarea actualizada correctamente'' ''success'']\<rparr>))
          else w)"

text \<open>The invariant of the data model: a completion instant is present exactly when the
  task is done.\<close>

definition completionInv :: "Task \<Rightarrow> bool" where
  "completionInv t = (task_completedAt t \<noteq> None \<longleftrightarrow> task_done t)"

text \<open>The operations on tasks that the page offers besides import, and a sequence of
  them.\<close>

datatype TaskOp =
  AddTask Env string string string
| ToggleTask Env string
| EditTaskTitle Env string bool string

fun taskOp :: "TaskOp \<Rightarrow> World \<Rightarrow> World" where
  "taskOp (AddTask env title dateValue timeValue) w = addTask env title dateValue timeValue w"
| "taskOp (ToggleTask env i) w = toggleTask env i w"
| "taskOp (EditTaskTitle env i isConfirmed val) w = editTaskTitle env i isConfirmed val w"

fun taskOps :: "TaskOp list \<Rightarrow> World \<Rightarrow> World" where
  "taskOps [] w = w"
| "taskOps (c # cs) w = taskOps cs (taskOp c w)"

section \<open>CSV export and import\<close>

text \<open>\<open>s.split(c)\<close> for a one-character separator, and \<open>xs.join(sep)\<close>.\<close>

fun splitOn :: "char \<Rightarrow> string \<Rightarrow> string list" where
  "splitOn c [] = [[]]"
| "splitOn c (x # xs) =
     (if x = c then [] # splitOn c xs
      else (case splitOn c xs of [] \<Rightarrow> [[x]] | y # ys \<Rightarrow> (x # y) # ys))"

fun join :: "string \<Rightarrow> string list \<Rightarrow> string" where
  "join sep [] = []"
| "join sep [x] = x"
| "join sep (x # y # ys) = x @ sep @ join sep (y # ys)"

text \<open>\<open>title.replace(/"/g, '""')\<close>: every double quote is doubled.\<close>

definition escapeQuotes :: "string \<Rightarrow> string" where
  "escapeQuotes s = concat (map (\<lambda>c. if c = CHR 0x22 then [CHR 0x22, CHR 0x22] else [c]) s)"

text \<open>\<open>v.replace(/^"|"$/g, '')\<close>: one double quote is removed at the start, if there is
  one, and then one at the end, if there is one.\<close>

definition stripQuotes :: "string \<Rightarrow> string" where
  "stripQuotes s =
     (let s1 = (case s of [] \<Rightarrow> [] | c # r \<Rightarrow> if c = CHR 0x22 then r else s)
      in if s1 \<noteq> [] \<and> last s1 = CHR 0x22 then butlast s1 else s1)"

text \<open>\<open>new Date(x).toLocaleString()\<close> for a stored instant.\<close>

fun localeString :: "Env \<Rightarrow> jsnum \<Rightarrow> string" where
  "localeString env NaN = ''Invalid Date''"
| "localeString env (Num n) = toLocaleString env n"

definition csvHeaders :: "string list" where
  "csvHeaders =
     [''ID'', ''T'' @ [CHR 0xED] @ ''tulo'', ''Estado'', ''Creada'', ''Completada'', ''Etiquetas'']"

text \<open>The title field of a row: the title in double quotes, its own quotes doubled.\<close>

definition csvTitleField :: "string \<Rightarrow> string" where
  "csvTitleField title = [CHR 0x22] @ escapeQuotes title @ [CHR 0x22]"

definition csvRow :: "Env \<Rightarrow> Task \<Rightarrow> string" where
  "csvRow env task =
     join '',''
       [task_id task,
        csvTitleField (task_title task),
        (if task_done task then ''Completada'' else ''Activa''),
        localeString env (task_createdAt task),
        (case task_completedAt task of
           None \<Rightarrow> []
         | Some c \<Rightarrow> if truthy c then localeString env c else []),
        (case task_tags task of
           None \<Rightarrow> []
         | Some tags \<Rightarrow> [CHR 0x22] @ join ''; '' tags @ [CHR 0x22])]"

text \<open>\<open>exportToCSV\<close>: the content of the file that is downloaded, and the state with the
  export recorded in the activity log.\<close>

definition exportToCSV :: "Env \<Rightarrow> World \<Rightarrow> string \<times> World" where
  "exportToCSV env w =
     (join [CHR 0x0A] (join '','' csvHeaders # map (csvRow env) (tasks w)),
      addActivity env Export None None (Some ''Datos exportados en formato CSV'') w)"

text \<open>\<open>values[k]\<close>, which is \<open>undefined\<close> out of range, and the value when it is truthy
  (defined and not empty).\<close>

definition valueAt :: "string list \<Rightarrow> nat \<Rightarrow> string option" where
  "valueAt values k = (if k < length values then Some (values ! k) else None)"

definition nonEmpty :: "string option \<Rightarrow> string option" where
  "nonEmpty v = (case v of None \<Rightarrow> None | Some s \<Rightarrow> if s = [] then None else Some s)"

text \<open>The task object built from the values of one row; \<open>k\<close> counts the random
  identifiers drawn so far.\<close>

definition csvTask :: "Env \<Rightarrow> nat \<Rightarrow> string list \<Rightarrow> Task \<times> nat" where
  "csvTask env k values =
     (\<lparr>task_id = (case nonEmpty (valueAt values 0) of Some s \<Rightarrow> s | None \<Rightarrow> uid env k),
       task_title =
         (case nonEmpty (valueAt values 1) of
            Some s \<Rightarrow> s
          | None \<Rightarrow> ''Tarea sin t'' @ [CHR 0xED] @ ''tulo''),
       task_done =
         (case valueAt values 2 of
            Some s \<Rightarrow> includesStr (toLowerCase s) ''completada''
          | None \<Rightarrow> False),
       task_createdAt =
         (case nonEmpty (valueAt values 3) of Some s \<Rightarrow> parseDate env s | None \<Rightarrow> Num (now env)),
       task_completedAt =
         (case nonEmpty (valueAt values 4) of Some s \<Rightarrow> Some (parseDate env s) | None \<Rightarrow> None),
       task_priority = None,
       task_tags =
         Some (case nonEmpty (valueAt values 5) of
                 Some s \<Rightarrow> filter (\<lambda>t. t \<noteq> []) (map trim (splitOn (CHR '';'') s))
               | None \<Rightarrow> []),
       task_reminder = None\<rparr>,
      (case nonEmpty (valueAt values 0) of Some s \<Rightarrow> k | None \<Rightarrow> Suc k))"

text \<open>The values of a line: split at the commas, each piece trimmed and stripped of one
  enclosing quote on either side.\<close>

definition csvValues :: "string \<Rightarrow> string list" where
  "csvValues line = map (\<lambda>v. stripQuotes (trim v)) (splitOn (CHR '','') line)"

text \<open>The loop over the lines after the header: empty lines and lines of fewer than three
  values are skipped.\<close>

fun csvLines :: "Env \<Rightarrow> nat \<Rightarrow> string list \<Rightarrow> Task list \<times> nat" where
  "csvLines env k [] = ([], k)"
| "csvLines env k (l # ls) =
     (let line = trim l
      in if line = [] then csvLines env k ls
         else (let values = csvValues line
               in if length values < 3 then csvLines env k ls
                  else (let (task, k1) = csvTask env k values;
                            (ts, k2) = csvLines env k1 ls
                        in (task # ts, k2))))"

text \<open>
  \<open>importFromCSV\<close>, with the answer of the confirmation dialog as an argument. A header
  of fewer than three columns throws; a declined dialog leaves the tasks as they are.
\<close>

definition importFromCSV :: "Env \<Rightarrow> string \<Rightarrow> bool \<Rightarrow> World \<Rightarrow> string + World" where
  "importFromCSV env content confirmed w =
     (let lines = splitOn (CHR 0x0A) content;
          headers = map (\<lambda>h. filter (\<lambda>c. c \<noteq> CHR 0x22) (trim h))
                      (splitOn (CHR '','') (case lines of [] \<Rightarrow> [] | l # ls \<Rightarrow> l))
      in if length headers < 3
         then Inl (''Formato CSV inv'' @ [CHR 0xE1] @ ''lido: se requieren al menos 3 columnas'')
         else
           (let (ts, k) = csvLines env (draws w) (tl lines);
                w1 = w\<lparr>draws := k\<rparr>
            in if \<not> confirmed then Inr w1
               else
                 (let w2 = addActivity env Import None None
                             (Some (numToString (int (length ts)) @ '' tareas importadas desde CSV''))
                             (render env (w1\<lparr>tasks := ts\<rparr>))
                  in Inr (w2\<lparr>shown := shown w2 @
                               [ShowSuccess ([CHR 0xA1] @ ''Importaci'' @ [CHR 0xF3] @ ''n exitosa!'')
                                  (''Se importaron '' @ numToString (int (length ts)) @
                                   '' tareas desde CSV'')]\<rparr>))))"

section \<open>JSON import\<close>

text \<open>
  The document \<open>JSON.parse\<close> returns, as far as \<open>importFromJSON\<close> reads it: a date field
  of the file is a string or a number; \<open>tasks\<close> is absent when the field is missing or not
  an array.
\<close>

datatype jsdate = DateStr string | DateNum int

record TaskJSON =
  tj_id :: string
  tj_title :: string
  tj_done :: bool
  tj_createdAt :: jsdate
  tj_completedAt :: "jsdate option"
  tj_priority :: "Priority option"
  tj_tags :: "string list option"
  tj_reminder :: "Reminder option"

record ActivityJSON =
  aj_id :: string
  aj_type :: ActivityType
  aj_taskId :: "string option"
  aj_taskTitle :: "string option"
  aj_timestamp :: jsdate
  aj_details :: "string option"

record ExportData =
  ed_tasks :: "TaskJSON list option"
  ed_availableTags :: "string list option"
  ed_activities :: "ActivityJSON list option"

text \<open>A date field as a timestamp: a string goes through the date parser, a number stays.\<close>

fun toTimestamp :: "Env \<Rightarrow> jsdate \<Rightarrow> jsnum" where
  "toTimestamp env (DateStr s) = parseDate env s"
| "toTimestamp env (DateNum n) = Num n"

fun truthyDate :: "jsdate \<Rightarrow> bool" where
  "truthyDate (DateStr s) = (s \<noteq> [])"
| "truthyDate (DateNum n) = (n \<noteq> 0)"

definition jsonTask :: "Env \<Rightarrow> TaskJSON \<Rightarrow> Task" where
  "jsonTask env task =
     \<lparr>task_id = tj_id task, task_title = tj_title task, task_done = tj_done task,
      task_createdAt = toTimestamp env (tj_createdAt task),
      task_completedAt =
        (case tj_completedAt task of
           None \<Rightarrow> None
         | Some c \<Rightarrow> if truthyDate c then Some (toTimestamp env c) else None),
      task_priority = tj_priority task, task_tags = tj_tags task,
      task_reminder = tj_reminder task\<rparr>"

definition jsonActivity :: "Env \<Rightarrow> ActivityJSON \<Rightarrow> Activity" where
  "jsonActivity env activity =
     \<lparr>act_id = aj_id activity, act_type = aj_type activity,
      act_taskId = aj_taskId activity, act_taskTitle = aj_taskTitle activity,
      act_timestamp = toTimestamp env (aj_timestamp activity),
      act_details = aj_details activity\<rparr>"

text \<open>
  \<open>importFromJSON\<close>, with the parsed document and the answer of the confirmation dialog
  as arguments. A document without a \<open>tasks\<close> array throws; a declined dialog changes
  nothing.
\<close>

definition importFromJSON :: "Env \<Rightarrow> ExportData \<Rightarrow> bool \<Rightarrow> World \<Rightarrow> string + World" where
  "importFromJSON env data confirmed w =
     (case ed_tasks data of
        None \<Rightarrow> Inl (''Formato JSON inv'' @ [CHR 0xE1] @ ''lido: falta el array de tareas'')
      | Some ts \<Rightarrow>
          if \<not> confirmed then Inr w
          else
            (let w1 = w\<lparr>tasks := map (jsonTask env) ts\<rparr>;
                 w2 = (case ed_availableTags data of
                         None \<Rightarrow> w1
                       | Some tags \<Rightarrow> w1\<lparr>availableTags := tags\<rparr>);
                 w3 = (case ed_activities data of
                         None \<Rightarrow> w2
                       | Some acts \<Rightarrow> w2\<lparr>activities := map (jsonActivity env) acts\<rparr>);
                 w4 = addActivity env Import None None
                        (Some (numToString (int (length ts)) @ '' tareas importadas desde JSON''))
                        (render env w3)
             in Inr (w4\<lparr>shown := shown w4 @
                          [ShowSuccess ([CHR 0xA1] @ ''Importaci'' @ [CHR 0xF3] @ ''n exitosa!'')
                             (''Se importaron '' @ numToString (int (length (tasks w4))) @
                              '' tareas, '' @ numToString (int (length (availableTags w4))) @
                              '' etiquetas y '' @ numToString (int (length (activities w4))) @
                              '' actividades'')]\<rparr>)))"

section \<open>Statistics\<close>




definition truthyOpt :: "jsnum option \<Rightarrow> bool" where
  "truthyOpt v = (case v of None \<Rightarrow> False | Some x \<Rightarrow> truthy x)"











text \<open>
  \<open>calculateStreakDays\<close>. \<open>setHours(0, 0, 0, 0)\<close> moves an instant to the local midnight
  before it, and \<open>setDate(getDate() - 1)\<close> moves a local midnight back one day; the sort
  is stable and descending by completion instant.
\<close>

definition startOfDay :: "Env \<Rightarrow> int \<Rightarrow> int" where
  "startOfDay env t = t - (t + tzOffset env) mod (24 * 60 * 60 * 1000)"

definition completedAtOf :: "Task \<Rightarrow> int" where
  "completedAtOf t = (case task_completedAt t of Some (Num c) \<Rightarrow> c | _ \<Rightarrow> 0)"

fun streakLoop :: "Env \<Rightarrow> Task list \<Rightarrow> int \<Rightarrow> int \<Rightarrow> int" where
  "streakLoop env [] streak currentDate = streak"
| "streakLoop env (task # rest) streak currentDate =
     (let taskDate = startOfDay env (completedAtOf task);
          diffDays = (currentDate - taskDate) div (24 * 60 * 60 * 1000)
      in if diffDays = streak
         then streakLoop env rest (streak + 1) (currentDate - 24 * 60 * 60 * 1000)
         else if diffDays > streak then streak
         else streakLoop env rest streak currentDate)"

definition calculateStreakDays :: "Env \<Rightarrow> Task list \<Rightarrow> int" where
  "calculateStreakDays env ts =
     (if length ts = 0 then 0
      else
        (let completedTasks =
               sort_key (\<lambda>t. - completedAtOf t)
                 (filter (\<lambda>t. truthyOpt (task_completedAt t)) ts)
         in if length completedTasks = 0 then 0
            else streakLoop env completedTasks 0 (startOfDay env (now env))))"

section \<open>A browser and states for the examples\<close>

text \<open>
  The clock stands at 1970-01-11 12:00:00 UTC, local time is UTC, the \<open>k\<close>-th random
  identifier is \<open>id\<close> followed by \<open>k\<close>, every instant prints as the Spanish rendering of
  the clock's own instant, and the only text that parses as a date is \<open>1970-01-11\<close>.
\<close>

definition testEnv :: Env where
  "testEnv =
     \<lparr>now = 907200000,
      uid = (\<lambda>k. ''id'' @ digits k),
      parseDate = (\<lambda>s. if s = ''1970-01-11'' then Num 864000000 else NaN),
      toLocaleString = (\<lambda>t. ''11/1/1970, 12:00:00''),
      tzOffset = 0\<rparr>"

text \<open>A log of 100 different entries, oldest last, and a state that holds it.\<close>

definition fullLog :: "Activity list" where
  "fullLog =
     map (\<lambda>k. \<lparr>act_id = ''a'', act_type = Create, act_taskId = None, act_taskTitle = None,
               act_timestamp = Num (int k), act_details = None\<rparr>)
       (rev [0..<100])"

definition fullLogWorld :: World where
  "fullLogWorld = initialWorld\<lparr>activities := fullLog\<rparr>"

text \<open>A feed of 50 notifications, oldest last, and a state that holds it.\<close>

definition fullFeed :: "Notification list" where
  "fullFeed =
     map (\<lambda>k. \<lparr>n_id = ''n'', n_type = Info_n, n_title = ''t'', n_message = ''m'',
               n_timestamp = int k, n_read = False, n_taskId = None, n_actions = None\<rparr>)
       (rev [0..<50])"

definition fullFeedWorld :: World where
  "fullFeedWorld = initialWorld\<lparr>notifications := fullFeed\<rparr>"

definition sampleNotification :: Notification where
  "sampleNotification =
     \<lparr>n_id = ''new'', n_type = System_n, n_title = ''Aviso'', n_message = ''Hola'',
      n_timestamp = 907200000, n_read = False, n_taskId = None, n_actions = None\<rparr>"

text \<open>The state after a reminder for task \<open>t1\<close> has been scheduled one hour ahead.\<close>

definition oneReminderWorld :: World where
  "oneReminderWorld = snd (scheduleReminder testEnv ''t1'' ''Comprar pan'' 910800000 initialWorld)"

text \<open>
  A task with a reminder one hour ahead of the clock, the state in which that reminder is
  pending, the same task completed in a state with nothing pending, and a completed task
  whose reminder is overdue.
\<close>

definition sampleTask :: Task where
  "sampleTask =
     \<lparr>task_id = ''t1'', task_title = ''Comprar pan'', task_done = False,
      task_createdAt = Num 900000000, task_completedAt = None, task_priority = None,
      task_tags = Some [],
      task_reminder = Some \<lparr>rem_datetime = 910800000, rem_notified = False\<rparr>\<rparr>"

definition pendingWorld :: World where
  "pendingWorld = oneReminderWorld\<lparr>tasks := [sampleTask]\<rparr>"





text \<open>A task titled \<open>Say "hi"\<close>, and the state whose only task it is.\<close>

definition sayHiTask :: Task where
  "sayHiTask =
     \<lparr>task_id = ''t1'', task_title = ''Say '' @ [CHR 0x22] @ ''hi'' @ [CHR 0x22],
      task_done = False, task_createdAt = Num 900000000, task_completedAt = None,
      task_priority = None, task_tags = Some [], task_reminder = None\<rparr>"

definition sayHiWorld :: World where
  "sayHiWorld = initialWorld\<lparr>tasks := [sayHiTask]\<rparr>"

text \<open>A CSV file of one row: a completed task, with no dates.\<close>

definition doneRowCsv :: string where
  "doneRowCsv = ''ID,T'' @ [CHR 0xED] @ ''tulo,Estado'' @ [CHR 0x0A] @ ''t1,Comprar pan,Completada''"

text \<open>A document of one task that is not done and carries a completion instant.\<close>

definition staleTaskJSON :: TaskJSON where
  "staleTaskJSON =
     \<lparr>tj_id = ''t1'', tj_title = ''Comprar pan'', tj_done = False,
      tj_createdAt = DateNum 900000000, tj_completedAt = Some (DateNum 905000000),
      tj_priority = None, tj_tags = Some [], tj_reminder = None\<rparr>"

text \<open>
  Three completed tasks for the clock of \<open>testEnv\<close> (1970-01-11 12:00 UTC): one
  completed today at 11:00, one yesterday at 12:00, one three days ago at 12:00.
\<close>

definition completedTask :: "string \<Rightarrow> int \<Rightarrow> Task" where
  "completedTask i c =
     \<lparr>task_id = i, task_title = ''Tarea'', task_done = True, task_createdAt = Num c,
      task_completedAt = Some (Num c), task_priority = None, task_tags = Some [],
      task_reminder = None\<rparr>"

definition streakTasks :: "Task list" where
  "streakTasks =
     [completedTask ''a'' 903600000, completedTask ''b'' 820800000,
      completedTask ''c'' 648000000]"


text \<open>Adding a task, completing task \<open>t1\<close> and renaming it.\<close>

definition sampleOps :: "TaskOp list" where
  "sampleOps =
     [AddTask testEnv ''Regar'' [] [], ToggleTask testEnv ''t1'',
      EditTaskTitle testEnv ''t1'' True ''Comprar leche'']"

text \<open>
  Two open tasks, the older one first in the list, in a state where no filter is set;
  and the same state with the status filter on open tasks.
\<close>

definition olderTask :: Task where
  "olderTask =
     \<lparr>task_id = ''old'', task_title = ''Regar'', task_done = False,
      task_createdAt = Num 800000000, task_completedAt = None, task_priority = None,
      task_tags = Some [], task_reminder = None\<rparr>"

definition newerTask :: Task where
  "newerTask =
     \<lparr>task_id = ''new'', task_title = ''Barrer'', task_done = False,
      task_createdAt = Num 900000000, task_completedAt = None, task_priority = None,
      task_tags = Some [], task_reminder = None\<rparr>"

definition twoTaskWorld :: World where
  "twoTaskWorld = initialWorld\<lparr>tasks := [olderTask, newerTask]\<rparr>"

definition activeFilterWorld :: World where
  "activeFilterWorld = twoTaskWorld\<lparr>filter_state := FilterActive\<rparr>"




section \<open>Activity log: bound and eviction\<close>

lemma addActivity_activities:
  "activities (addActivity env ty i t d w) =
     take 100 (newActivity env ty i t d w # activities w)"
  by (simp add: addActivity_def newActivity_def Let_def)

lemma addActivity_length: "length (activities (addActivity env ty i t d w)) \<le> 100"
  by (simp add: addActivity_activities)

lemma addActivities_length:
  "length (activities w) \<le> 100 \<Longrightarrow> length (activities (addActivities cs w)) \<le> 100"
proof (induction cs arbitrary: w)
  case Nil
  then show ?case by simp
next
  case (Cons c cs)
  obtain env ty i t d where c: "c = (env, ty, i, t, d)"
    by (cases c) auto
  show ?case
    unfolding c by (simp add: Cons.IH addActivity_length)
qed

text \<open>
  Claim C7. Starting from a log of at most 100 entries (the initial log is empty), the
  log holds at most 100 entries after every sequence of \<open>addActivity\<close> calls; and after
  any call at all it holds at most 100. When the log holds exactly 100 entries, the call
  puts the new entry at index 0 and keeps the 99 newest of the old entries behind it, so
  the oldest entry (the last one) has been dropped: it is no longer in the log when the
  entries are pairwise different.
\<close>

theorem C7_activity_log_bounded:
  "(length (activities w) \<le> 100 \<longrightarrow> length (activities (addActivities cs w)) \<le> 100)
   \<and> length (activities (addActivity env ty i t d w)) \<le> 100
   \<and> (length (activities w) = 100 \<longrightarrow>
        activities (addActivity env ty i t d w)
          = newActivity env ty i t d w # butlast (activities w)
        \<and> activities (addActivity env ty i t d w) ! 0 = newActivity env ty i t d w
        \<and> length (activities (addActivity env ty i t d w)) = 100
        \<and> (distinct (newActivity env ty i t d w # activities w) \<longrightarrow>
             last (activities w) \<notin> set (activities (addActivity env ty i t d w))))"
proof (intro conjI impI)
  assume "length (activities w) \<le> 100"
  then show "length (activities (addActivities cs w)) \<le> 100"
    by (rule addActivities_length)
next
  show "length (activities (addActivity env ty i t d w)) \<le> 100"
    by (rule addActivity_length)
next
  assume len: "length (activities w) = 100"
  then have ne: "activities w \<noteq> []" by auto
  have tk: "take 99 (activities w) = butlast (activities w)"
    using len by (simp add: butlast_conv_take)
  show eq: "activities (addActivity env ty i t d w)
          = newActivity env ty i t d w # butlast (activities w)"
    by (simp add: addActivity_activities tk)
  show "activities (addActivity env ty i t d w) ! 0 = newActivity env ty i t d w"
    by (simp add: eq)
  show "length (activities (addActivity env ty i t d w)) = 100"
    using len by (simp add: eq)
  assume dist: "distinct (newActivity env ty i t d w # activities w)"
  have split: "activities w = butlast (activities w) @ [last (activities w)]"
    using ne by simp
  have "distinct (butlast (activities w) @ [last (activities w)])"
    using dist split by simp
  then have "last (activities w) \<notin> set (butlast (activities w))"
    by simp
  moreover have "last (activities w) \<noteq> newActivity env ty i t d w"
  proof
    assume "last (activities w) = newActivity env ty i t d w"
    then have "newActivity env ty i t d w \<in> set (activities w)"
      using last_in_set [OF ne] by simp
    then show False using dist by simp
  qed
  ultimately show "last (activities w) \<notin> set (activities (addActivity env ty i t d w))"
    by (simp add: eq)
qed


lemma fullLog_length: "length fullLog = 100"
  by (simp add: fullLog_def)

lemma fullLog_ids: "a \<in> set fullLog \<Longrightarrow> act_id a = ''a''"
  unfolding fullLog_def by (auto simp only: set_map set_rev set_upt Activity.simps image_iff)

lemma fullLog_distinct:
  "distinct (newActivity testEnv Create None None None fullLogWorld # activities fullLogWorld)"
proof -
  have "inj_on (\<lambda>k. \<lparr>act_id = ''a'', act_type = Create, act_taskId = None, act_taskTitle = None,
               act_timestamp = Num (int k), act_details = None\<rparr>) (set (rev [0..<100]))"
    by (rule inj_onI) simp
  then have "distinct fullLog"
    unfolding fullLog_def by (simp only: distinct_map distinct_rev distinct_upt simp_thms)
  moreover have "newActivity testEnv Create None None None fullLogWorld \<notin> set fullLog"
  proof
    assume "newActivity testEnv Create None None None fullLogWorld \<in> set fullLog"
    from fullLog_ids [OF this] show False
      by (simp add: newActivity_def testEnv_def)
  qed
  ultimately show ?thesis by (simp add: fullLogWorld_def)
qed

theorem C7_activity_log_bounded_witness:
  "length (activities fullLogWorld) = 100
   \<and> distinct (newActivity testEnv Create None None None fullLogWorld # activities fullLogWorld)
   \<and> length (activities (addActivities
         [(testEnv, Create, None, None, None), (testEnv, Edit, None, None, None)] fullLogWorld)) \<le> 100
   \<and> activities (addActivity testEnv Create None None None fullLogWorld) ! 0
        = newActivity testEnv Create None None None fullLogWorld
   \<and> last (activities fullLogWorld)
        \<notin> set (activities (addActivity testEnv Create None None None fullLogWorld))"
proof -
  have len: "length (activities fullLogWorld) = 100"
    by (simp add: fullLogWorld_def fullLog_length)
  then have le: "length (activities fullLogWorld) \<le> 100"
    by simp
  note c7 = C7_activity_log_bounded
            [of fullLogWorld
                "[(testEnv, Create, None, None, None), (testEnv, Edit, None, None, None)]"
                testEnv Create None None None]
  show ?thesis
    using c7 len le fullLog_distinct by blast
qed


section \<open>Notification feed: bound and eviction\<close>

lemma addNotification_notifications:
  "notifications (addNotification n w) = take 50 (n # notifications w)"
  by (simp add: addNotification_def MAX_NOTIFICATIONS_def Let_def)

lemma addNotifications_length:
  "length (notifications w) \<le> 50 \<Longrightarrow> length (notifications (addNotifications ns w)) \<le> 50"
  by (induction ns arbitrary: w) (simp_all add: addNotification_notifications)

text \<open>
  Claim C8. Starting from a feed of at most 50 entries (the initial feed is empty), the
  feed holds at most 50 entries after every sequence of \<open>addNotification\<close> calls, and
  after any call at all it holds at most 50. The call puts the new notification at
  index 0; below 50 entries the old feed follows it unchanged, and from 50 entries on
  only its 49 newest entries follow, the oldest being dropped.
\<close>

theorem C8_notification_feed_bounded:
  "(length (notifications w) \<le> 50 \<longrightarrow> length (notifications (addNotifications ns w)) \<le> 50)
   \<and> length (notifications (addNotification n w)) \<le> 50
   \<and> notifications (addNotification n w) ! 0 = n
   \<and> (length (notifications w) < 50 \<longrightarrow>
        notifications (addNotification n w) = n # notifications w)
   \<and> (50 \<le> length (notifications w) \<longrightarrow>
        notifications (addNotification n w) = n # take 49 (notifications w))"
  by (simp add: addNotifications_length addNotification_notifications)

lemma fullFeed_length: "length fullFeed = 50"
  by (simp add: fullFeed_def)

theorem C8_notification_feed_bounded_witness:
  "length (notifications fullFeedWorld) \<le> 50
   \<and> length (notifications (addNotifications [sampleNotification, sampleNotification] fullFeedWorld)) \<le> 50
   \<and> notifications (addNotification sampleNotification fullFeedWorld)
       = sampleNotification # take 49 (notifications fullFeedWorld)
   \<and> length (notifications initialWorld) < 50
   \<and> notifications (addNotification sampleNotification initialWorld) = [sampleNotification]"
  using C8_notification_feed_bounded
          [of fullFeedWorld "[sampleNotification, sampleNotification]" sampleNotification]
        C8_notification_feed_bounded [of initialWorld "[]" sampleNotification]
  by (simp add: fullFeedWorld_def fullFeed_length initialWorld_def)


section \<open>Reminder scheduler: rejection, replacement, one timeout per task\<close>

lemma filter_le_one:
  assumes "distinct (map fst ts)"
    and "\<And>x y. x \<in> set ts \<Longrightarrow> y \<in> set ts \<Longrightarrow> Q x \<Longrightarrow> Q y \<Longrightarrow> fst x = fst y"
  shows "length (filter Q ts) \<le> Suc 0"
  using assms
proof (induction ts)
  case Nil
  show ?case by simp
next
  case (Cons x ts)
  have d: "distinct (map fst ts)" and nin: "fst x \<notin> set (map fst ts)"
    using Cons.prems(1) by simp_all
  have ih: "length (filter Q ts) \<le> Suc 0"
  proof (rule Cons.IH [OF d])
    fix a b assume "a \<in> set ts" "b \<in> set ts" "Q a" "Q b"
    then show "fst a = fst b"
      using Cons.prems(2) [of a b] by simp
  qed
  show ?case
  proof (cases "Q x")
    case True
    have "\<forall>y\<in>set ts. \<not> Q y"
    proof
      fix y assume y: "y \<in> set ts"
      show "\<not> Q y"
      proof
        assume qy: "Q y"
        have "fst x = fst y"
          using Cons.prems(2) [of x y] y True qy by simp
        moreover have "fst y \<in> set (map fst ts)" using y by simp
        ultimately show False using nin by simp
      qed
    qed
    then have "filter Q ts = []" by (simp add: filter_empty_conv)
    then show ?thesis using True by simp
  next
    case False
    then show ?thesis using ih by simp
  qed
qed


lemma ball_pairs: "(\<forall>x\<in>set ts. case x of (k, tm) \<Rightarrow> P k tm) = (\<forall>k tm. (k, tm) \<in> set ts \<longrightarrow> P k tm)"
  by auto

lemma schedulerInv_iff:
  "schedulerInv w \<longleftrightarrow>
     distinct (map fst (timers w)) \<and>
     (\<forall>k tm. (k, tm) \<in> set (timers w) \<longrightarrow>
        k < nextTimeoutId w \<and>
        (\<exists>r. map_of (activeReminders w) (tm_taskId tm) = Some r \<and> ar_timeoutId r = k))"
proof -
  have c: "\<And>k tm. (case map_of (activeReminders w) (tm_taskId tm) of None \<Rightarrow> False
                   | Some r \<Rightarrow> ar_timeoutId r = k)
        \<longleftrightarrow> (\<exists>r. map_of (activeReminders w) (tm_taskId tm) = Some r \<and> ar_timeoutId r = k)"
    by (simp split: option.split)
  show ?thesis
    unfolding schedulerInv_def list_all_iff ball_pairs c by (rule refl)
qed

lemma inv_timer:
  assumes "schedulerInv w" and "(k, tm) \<in> set (timers w)"
  obtains r where "k < nextTimeoutId w"
    and "map_of (activeReminders w) (tm_taskId tm) = Some r" and "ar_timeoutId r = k"
  using assms unfolding schedulerInv_iff by blast

lemma inv_distinct: "schedulerInv w \<Longrightarrow> distinct (map fst (timers w))"
  unfolding schedulerInv_iff by blast

lemma schedulerInv_pending:
  assumes "schedulerInv w"
  shows "length (pendingTimers taskId w) \<le> Suc 0"
  unfolding pendingTimers_def
proof (rule filter_le_one [OF inv_distinct [OF assms]])
  fix x y
  assume x: "x \<in> set (timers w)" and y: "y \<in> set (timers w)"
    and qx: "case x of (k, tm) \<Rightarrow> tm_taskId tm = taskId"
    and qy: "case y of (k, tm) \<Rightarrow> tm_taskId tm = taskId"
  obtain k tm where xe: "x = (k, tm)" by (cases x)
  obtain k' tm' where ye: "y = (k', tm')" by (cases y)
  from x xe have "(k, tm) \<in> set (timers w)" by simp
  from inv_timer [OF assms this] obtain r where
    r: "map_of (activeReminders w) (tm_taskId tm) = Some r" "ar_timeoutId r = k" .
  from y ye have "(k', tm') \<in> set (timers w)" by simp
  from inv_timer [OF assms this] obtain r' where
    r': "map_of (activeReminders w) (tm_taskId tm') = Some r'" "ar_timeoutId r' = k'" .
  from qx qy xe ye have "tm_taskId tm = tm_taskId tm'" by simp
  with r r' have "k = k'" by simp
  then show "fst x = fst y" by (simp add: xe ye)
qed

lemma schedulerInv_initial: "schedulerInv initialWorld"
  by (simp add: schedulerInv_def initialWorld_def)

text \<open>Removing one timeout and the table entry of its task keeps the invariant.\<close>

lemma inv_remove:
  assumes inv: "schedulerInv w"
    and r: "map_of (activeReminders w) taskId = Some r"
    and tmrs: "timers w' = AList.delete (ar_timeoutId r) (timers w)"
    and ars: "activeReminders w' = AList.delete taskId (activeReminders w)"
    and nxt: "nextTimeoutId w \<le> nextTimeoutId w'"
  shows "schedulerInv w' \<and> pendingTimers taskId w' = []"
proof
  have d: "distinct (map fst (timers w'))"
    using inv_distinct [OF inv] by (simp add: tmrs distinct_delete)
  have still: "\<And>k tm. (k, tm) \<in> set (timers w') \<Longrightarrow>
      (k, tm) \<in> set (timers w) \<and> k \<noteq> ar_timeoutId r"
    by (auto simp: tmrs AList.delete_eq)
  have other: "\<And>k tm. (k, tm) \<in> set (timers w') \<Longrightarrow> tm_taskId tm \<noteq> taskId"
  proof
    fix k tm assume a: "(k, tm) \<in> set (timers w')" and e: "tm_taskId tm = taskId"
    from still [OF a] have mem: "(k, tm) \<in> set (timers w)" and ne: "k \<noteq> ar_timeoutId r"
      by simp_all
    from inv_timer [OF inv mem] obtain r' where
      "map_of (activeReminders w) (tm_taskId tm) = Some r'" "ar_timeoutId r' = k" .
    with r e ne show False by simp
  qed
  show "schedulerInv w'"
    unfolding schedulerInv_iff
  proof (intro conjI allI impI)
    show "distinct (map fst (timers w'))" by (rule d)
  next
    fix k tm assume a: "(k, tm) \<in> set (timers w')"
    from still [OF a] have mem: "(k, tm) \<in> set (timers w)" by simp
    from inv_timer [OF inv mem] obtain r' where
      r': "k < nextTimeoutId w" "map_of (activeReminders w) (tm_taskId tm) = Some r'"
         "ar_timeoutId r' = k" .
    show "k < nextTimeoutId w'" using r'(1) nxt by simp
    show "\<exists>r. map_of (activeReminders w') (tm_taskId tm) = Some r \<and> ar_timeoutId r = k"
      using r' other [OF a] by (simp add: ars delete_conv')
  qed
  show "pendingTimers taskId w' = []"
    unfolding pendingTimers_def filter_empty_conv using other by auto
qed

lemma cancelReminder_inv:
  assumes "schedulerInv w"
  shows "schedulerInv (cancelReminder taskId w)"
proof (cases "map_of (activeReminders w) taskId")
  case None
  then show ?thesis using assms by (simp add: cancelReminder_def)
next
  case (Some r)
  show ?thesis
    using inv_remove [OF assms Some, of "cancelReminder taskId w"] Some
    by (simp add: cancelReminder_def)
qed

lemma cancelReminder_none:
  assumes "schedulerInv w"
  shows "pendingTimers taskId (cancelReminder taskId w) = []"
    and "map_of (activeReminders (cancelReminder taskId w)) taskId = None"
proof -
  show "map_of (activeReminders (cancelReminder taskId w)) taskId = None"
    by (cases "map_of (activeReminders w) taskId") (simp_all add: cancelReminder_def delete_conv')
  show "pendingTimers taskId (cancelReminder taskId w) = []"
  proof (cases "map_of (activeReminders w) taskId")
    case None
    have "\<And>k tm. (k, tm) \<in> set (timers w) \<Longrightarrow> tm_taskId tm \<noteq> taskId"
    proof
      fix k tm assume mem: "(k, tm) \<in> set (timers w)" and e: "tm_taskId tm = taskId"
      from inv_timer [OF assms mem] obtain r' where
        "map_of (activeReminders w) (tm_taskId tm) = Some r'" .
      with None e show False by simp
    qed
    then show ?thesis
      using None unfolding pendingTimers_def filter_empty_conv
      by (auto simp: cancelReminder_def)
  next
    case (Some r)
    show ?thesis
      using inv_remove [OF assms Some, of "cancelReminder taskId w"] Some
      by (simp add: cancelReminder_def)
  qed
qed


lemma cancelReminder_next: "nextTimeoutId (cancelReminder taskId w) = nextTimeoutId w"
  by (simp add: cancelReminder_def split: option.split)

lemma scheduleReminder_past:
  "datetime \<le> now env \<Longrightarrow>
   scheduleReminder env taskId taskTitle datetime w =
     (False, w\<lparr>shown := shown w @
                [ShowError (''Fecha inv'' @ [CHR 0xE1] @ ''lida'')
                   ''El recordatorio debe ser programado para una fecha futura'']\<rparr>)"
  by (simp add: scheduleReminder_def)

lemma scheduleReminder_future:
  assumes "now env < datetime"
  shows "fst (scheduleReminder env taskId taskTitle datetime w) = True"
    and "timers (snd (scheduleReminder env taskId taskTitle datetime w)) =
           timers (cancelReminder taskId w) @
             [(nextTimeoutId w, \<lparr>tm_taskId = taskId, tm_taskTitle = taskTitle, tm_due = datetime\<rparr>)]"
    and "nextTimeoutId (snd (scheduleReminder env taskId taskTitle datetime w)) = Suc (nextTimeoutId w)"
    and "activeReminders (snd (scheduleReminder env taskId taskTitle datetime w)) =
           AList.update taskId
             \<lparr>ar_taskId = taskId, ar_taskTitle = taskTitle, ar_datetime = datetime,
              ar_timeoutId = nextTimeoutId w\<rparr>
             (activeReminders (cancelReminder taskId w))"
  using assms by (simp_all add: scheduleReminder_def Let_def cancelReminder_next)

lemma scheduleReminder_future_inv:
  assumes inv: "schedulerInv w" and fut: "now env < datetime"
  shows "schedulerInv (snd (scheduleReminder env taskId taskTitle datetime w))"
    and "pendingTimers taskId (snd (scheduleReminder env taskId taskTitle datetime w)) =
           [(nextTimeoutId w, \<lparr>tm_taskId = taskId, tm_taskTitle = taskTitle, tm_due = datetime\<rparr>)]"
proof -
  let ?w1 = "cancelReminder taskId w"
  let ?w' = "snd (scheduleReminder env taskId taskTitle datetime w)"
  let ?tm = "\<lparr>tm_taskId = taskId, tm_taskTitle = taskTitle, tm_due = datetime\<rparr>"
  let ?r = "\<lparr>ar_taskId = taskId, ar_taskTitle = taskTitle, ar_datetime = datetime,
              ar_timeoutId = nextTimeoutId w\<rparr>"
  note f = scheduleReminder_future [OF fut, of taskId taskTitle w]
  have inv1: "schedulerInv ?w1" by (rule cancelReminder_inv [OF inv])
  have none1: "pendingTimers taskId ?w1 = []" by (rule cancelReminder_none(1) [OF inv])
  have other: "\<And>k tm. (k, tm) \<in> set (timers ?w1) \<Longrightarrow> tm_taskId tm \<noteq> taskId"
    using none1 unfolding pendingTimers_def filter_empty_conv by auto
  have below: "\<And>k tm. (k, tm) \<in> set (timers ?w1) \<Longrightarrow> k < nextTimeoutId w"
  proof -
    fix k tm assume mem: "(k, tm) \<in> set (timers ?w1)"
    from inv_timer [OF inv1 mem] have "k < nextTimeoutId ?w1" by blast
    then show "k < nextTimeoutId w" by (simp add: cancelReminder_next)
  qed
  have fresh: "nextTimeoutId w \<notin> set (map fst (timers ?w1))"
  proof
    assume "nextTimeoutId w \<in> set (map fst (timers ?w1))"
    then obtain tm where "(nextTimeoutId w, tm) \<in> set (timers ?w1)" by auto
    from below [OF this] show False by simp
  qed
  show "schedulerInv ?w'"
    unfolding schedulerInv_iff
  proof (intro conjI allI impI)
    show "distinct (map fst (timers ?w'))"
      using inv_distinct [OF inv1] fresh by (simp add: f(2))
  next
    fix k tm assume a: "(k, tm) \<in> set (timers ?w')"
    then consider (old) "(k, tm) \<in> set (timers ?w1)" | (new) "k = nextTimeoutId w" "tm = ?tm"
      by (auto simp: f(2))
    then have "k < nextTimeoutId ?w' \<and>
        (\<exists>r. map_of (activeReminders ?w') (tm_taskId tm) = Some r \<and> ar_timeoutId r = k)"
    proof cases
      case old
      from inv_timer [OF inv1 old] obtain r where
        r: "map_of (activeReminders ?w1) (tm_taskId tm) = Some r" "ar_timeoutId r = k" .
      show ?thesis
        using below [OF old] other [OF old] r by (simp add: f(3) f(4) update_conv')
    next
      case new
      then show ?thesis by (simp add: f(3) f(4) update_conv')
    qed
    then show "k < nextTimeoutId ?w'"
      and "\<exists>r. map_of (activeReminders ?w') (tm_taskId tm) = Some r \<and> ar_timeoutId r = k"
      by simp_all
  qed
  show "pendingTimers taskId ?w' = [(nextTimeoutId w, ?tm)]"
    using none1 by (simp add: pendingTimers_def f(2))
qed

lemma scheduleReminder_inv:
  assumes "schedulerInv w"
  shows "schedulerInv (snd (scheduleReminder env taskId taskTitle datetime w))"
proof (cases "now env < datetime")
  case True
  then show ?thesis by (rule scheduleReminder_future_inv(1) [OF assms])
next
  case False
  then have "datetime \<le> now env" by simp
  then show ?thesis
    using assms by (simp add: scheduleReminder_past schedulerInv_def)
qed

lemma snoozeReminder_inv:
  assumes "schedulerInv w"
  shows "schedulerInv (snd (snoozeReminder env taskId taskTitle minutes w))"
proof -
  have "schedulerInv (w\<lparr>shown := shown w @
      [ShowToast (''Recordatorio pospuesto '' @ numToString minutes @ '' minutos'') ''info'']\<rparr>)"
    using assms by (simp add: schedulerInv_def)
  then show ?thesis
    unfolding snoozeReminder_def Let_def by (rule scheduleReminder_inv)
qed

lemma createReminderNotification_frame:
  "timers (createReminderNotification env i t w) = timers w"
  "activeReminders (createReminderNotification env i t w) = activeReminders w"
  "nextTimeoutId (createReminderNotification env i t w) = nextTimeoutId w"
  by (simp_all add: createReminderNotification_def addNotification_def Let_def)

lemma fireTimer_inv:
  assumes inv: "schedulerInv w"
  shows "schedulerInv (fireTimer env k w)"
proof (cases "map_of (timers w) k")
  case None
  then show ?thesis using inv by (simp add: fireTimer_def)
next
  case (Some tm)
  have mem: "(k, tm) \<in> set (timers w)" by (rule map_of_SomeD [OF Some])
  from inv_timer [OF inv mem] obtain r where
    r: "map_of (activeReminders w) (tm_taskId tm) = Some r" "ar_timeoutId r = k" .
  have "schedulerInv (fireTimer env k w) \<and> pendingTimers (tm_taskId tm) (fireTimer env k w) = []"
    by (rule inv_remove [OF inv r(1)])
       (simp_all add: fireTimer_def Some Let_def r(2) createReminderNotification_frame)
  then show ?thesis by simp
qed

lemma reminderCall_inv: "schedulerInv w \<Longrightarrow> schedulerInv (reminderCall c w)"
  by (cases c) (simp_all add: scheduleReminder_inv cancelReminder_inv snoozeReminder_inv fireTimer_inv)

lemma reminderCalls_inv: "schedulerInv w \<Longrightarrow> schedulerInv (reminderCalls cs w)"
  by (induction cs arbitrary: w) (simp_all add: reminderCall_inv)


text \<open>
  Claim C5. For every task identifier, title and target instant that is not later than
  the clock, \<open>scheduleReminder\<close> returns false and changes nothing but the messages
  shown, to which it adds the error: the table of reminders and the pending timeouts are
  the same, so a reminder that was pending for the task still is.
\<close>

theorem C5_past_reminder_rejected:
  assumes "datetime \<le> now env"
  shows "fst (scheduleReminder env taskId taskTitle datetime w) = False
       \<and> snd (scheduleReminder env taskId taskTitle datetime w) =
           w\<lparr>shown := shown w @
                [ShowError (''Fecha inv'' @ [CHR 0xE1] @ ''lida'')
                   ''El recordatorio debe ser programado para una fecha futura'']\<rparr>
       \<and> activeReminders (snd (scheduleReminder env taskId taskTitle datetime w)) = activeReminders w
       \<and> timers (snd (scheduleReminder env taskId taskTitle datetime w)) = timers w
       \<and> pendingTimers taskId (snd (scheduleReminder env taskId taskTitle datetime w))
           = pendingTimers taskId w"
  using assms by (simp add: scheduleReminder_past pendingTimers_def)

lemma oneReminderWorld_eq:
  "oneReminderWorld =
     initialWorld\<lparr>timers := [(1, \<lparr>tm_taskId = ''t1'', tm_taskTitle = ''Comprar pan'', tm_due = 910800000\<rparr>)],
                  nextTimeoutId := 2,
                  activeReminders := [(''t1'', \<lparr>ar_taskId = ''t1'', ar_taskTitle = ''Comprar pan'',
                                              ar_datetime = 910800000, ar_timeoutId = 1\<rparr>)],
                  shown := [ShowToast ''Recordatorio programado para 11/1/1970, 12:00:00'' ''success'']\<rparr>"
  by (simp add: oneReminderWorld_def scheduleReminder_def cancelReminder_def initialWorld_def
      testEnv_def Let_def)

theorem C5_past_reminder_rejected_witness:
  "(900000000::int) \<le> now testEnv
   \<and> fst (scheduleReminder testEnv ''t1'' ''Comprar pan'' 900000000 oneReminderWorld) = False
   \<and> pendingTimers ''t1'' (snd (scheduleReminder testEnv ''t1'' ''Comprar pan'' 900000000 oneReminderWorld))
       = [(1, \<lparr>tm_taskId = ''t1'', tm_taskTitle = ''Comprar pan'', tm_due = 910800000\<rparr>)]"
  using C5_past_reminder_rejected [of 900000000 testEnv "''t1''" "''Comprar pan''" oneReminderWorld]
  by (simp add: oneReminderWorld_eq pendingTimers_def testEnv_def initialWorld_def)


text \<open>
  Claim C6. The invariant holds when the page has loaded and is kept by every sequence of
  \<open>scheduleReminder\<close>, \<open>cancelReminder\<close> and \<open>snoozeReminder\<close> calls and timeout
  callbacks; under it at most one timeout is pending for each task identifier. Scheduling
  a reminder in the future for a task that has a pending timeout succeeds, leaves that
  timeout no longer pending, and makes the new timeout the only one pending for the task
  and the one recorded in the table.
\<close>

theorem C6_one_timer_per_task:
  "schedulerInv initialWorld
   \<and> length (pendingTimers taskId (reminderCalls cs initialWorld)) \<le> 1
   \<and> (schedulerInv w \<longrightarrow>
        schedulerInv (reminderCalls cs w)
        \<and> length (pendingTimers taskId (reminderCalls cs w)) \<le> 1)
   \<and> (schedulerInv w \<and> now env < datetime \<and> (k0, tm0) \<in> set (timers w)
        \<and> tm_taskId tm0 = taskId \<longrightarrow>
        fst (scheduleReminder env taskId taskTitle datetime w) = True
        \<and> map_of (timers (snd (scheduleReminder env taskId taskTitle datetime w))) k0 = None
        \<and> pendingTimers taskId (snd (scheduleReminder env taskId taskTitle datetime w))
            = [(nextTimeoutId w,
                \<lparr>tm_taskId = taskId, tm_taskTitle = taskTitle, tm_due = datetime\<rparr>)]
        \<and> map_of (activeReminders (snd (scheduleReminder env taskId taskTitle datetime w))) taskId
            = Some \<lparr>ar_taskId = taskId, ar_taskTitle = taskTitle, ar_datetime = datetime,
                    ar_timeoutId = nextTimeoutId w\<rparr>)"
proof (intro conjI impI)
  show "schedulerInv initialWorld" by (rule schedulerInv_initial)
  have "schedulerInv (reminderCalls cs initialWorld)"
    by (rule reminderCalls_inv [OF schedulerInv_initial])
  then show "length (pendingTimers taskId (reminderCalls cs initialWorld)) \<le> 1"
    using schedulerInv_pending by simp
next
  assume inv: "schedulerInv w"
  show "schedulerInv (reminderCalls cs w)" by (rule reminderCalls_inv [OF inv])
  then show "length (pendingTimers taskId (reminderCalls cs w)) \<le> 1"
    using schedulerInv_pending by simp
next
  let ?w' = "snd (scheduleReminder env taskId taskTitle datetime w)"
  assume h: "schedulerInv w \<and> now env < datetime \<and> (k0, tm0) \<in> set (timers w)
        \<and> tm_taskId tm0 = taskId"
  then have inv: "schedulerInv w" and fut: "now env < datetime"
    and mem: "(k0, tm0) \<in> set (timers w)" and tid: "tm_taskId tm0 = taskId"
    by simp_all
  note f = scheduleReminder_future [OF fut, of taskId taskTitle w]
  show "fst (scheduleReminder env taskId taskTitle datetime w) = True" by (rule f(1))
  show "pendingTimers taskId ?w' =
      [(nextTimeoutId w, \<lparr>tm_taskId = taskId, tm_taskTitle = taskTitle, tm_due = datetime\<rparr>)]"
    by (rule scheduleReminder_future_inv(2) [OF inv fut])
  show "map_of (activeReminders ?w') taskId =
      Some \<lparr>ar_taskId = taskId, ar_taskTitle = taskTitle, ar_datetime = datetime,
            ar_timeoutId = nextTimeoutId w\<rparr>"
    by (simp add: f(4) update_conv')
  from inv_timer [OF inv mem] obtain r where
    r: "k0 < nextTimeoutId w" "map_of (activeReminders w) (tm_taskId tm0) = Some r"
       "ar_timeoutId r = k0" .
  have "timers (cancelReminder taskId w) = AList.delete k0 (timers w)"
    using r tid by (simp add: cancelReminder_def)
  then have "map_of (timers ?w') k0 = None"
    using r(1) by (simp add: f(2) delete_conv')
  then show "map_of (timers ?w') k0 = None" .
qed


lemma oneReminderWorld_inv: "schedulerInv oneReminderWorld"
  by (simp add: oneReminderWorld_eq schedulerInv_def initialWorld_def)

theorem C6_one_timer_per_task_witness:
  "schedulerInv oneReminderWorld
   \<and> now testEnv < 914400000
   \<and> (1, \<lparr>tm_taskId = ''t1'', tm_taskTitle = ''Comprar pan'', tm_due = 910800000\<rparr>)
        \<in> set (timers oneReminderWorld)
   \<and> length (pendingTimers ''t1''
        (reminderCalls [ScheduleReminder testEnv ''t1'' ''Comprar pan'' 914400000,
                        SnoozeReminder testEnv ''t1'' ''Comprar pan'' 10] oneReminderWorld)) \<le> 1
   \<and> map_of (timers (snd (scheduleReminder testEnv ''t1'' ''Comprar pan'' 914400000 oneReminderWorld))) 1
        = None
   \<and> pendingTimers ''t1'' (snd (scheduleReminder testEnv ''t1'' ''Comprar pan'' 914400000 oneReminderWorld))
        = [(2, \<lparr>tm_taskId = ''t1'', tm_taskTitle = ''Comprar pan'', tm_due = 914400000\<rparr>)]"
  using C6_one_timer_per_task
          [where w = oneReminderWorld
             and cs = "[ScheduleReminder testEnv ''t1'' ''Comprar pan'' 914400000,
                        SnoozeReminder testEnv ''t1'' ''Comprar pan'' 10]"
             and taskId = "''t1''" and env = testEnv and datetime = 914400000 and ?k0.0 = 1
             and ?tm0.0 = "\<lparr>tm_taskId = ''t1'', tm_taskTitle = ''Comprar pan'', tm_due = 910800000\<rparr>"
             and taskTitle = "''Comprar pan''"]
        oneReminderWorld_inv
  by (simp add: oneReminderWorld_eq testEnv_def initialWorld_def)




section \<open>The view and its sort\<close>

lemma render_eq:
  "render env w = (if viewUnfiltered w then w\<lparr>tasks := sortTasks (tasks w)\<rparr> else w)"
  by (cases "filter_state w")
     (simp_all add: render_def visibleTasks_def viewUnfiltered_def Let_def)

lemma render_frame:
  "activities (render env w) = activities w"
  "notifications (render env w) = notifications w"
  "activeReminders (render env w) = activeReminders w"
  "timers (render env w) = timers w"
  "nextTimeoutId (render env w) = nextTimeoutId w"
  "shown (render env w) = shown w"
  "draws (render env w) = draws w"
  by (simp_all add: render_eq)

lemma render_rest: "render env w = w\<lparr>tasks := tasks (render env w)\<rparr>"
  by (simp add: render_eq)

lemma sortTasks_mset: "mset (sortTasks ts) = mset ts"
  by (simp add: sortTasks_def)

lemma sortTasks_set: "set (sortTasks ts) = set ts"
  by (simp add: sortTasks_def)

lemma render_mset: "mset (tasks (render env w)) = mset (tasks w)"
  by (simp add: render_eq sortTasks_mset)

lemma render_set: "set (tasks (render env w)) = set (tasks w)"
  by (simp add: render_eq sortTasks_set)

lemma render_list_all: "list_all P (tasks (render env w)) = list_all P (tasks w)"
  by (simp add: render_eq list_all_iff sortTasks_set)

lemma sortTasks_sorted: "sorted (map newestFirstKey ts) \<Longrightarrow> sortTasks ts = ts"
  by (simp add: sortTasks_def sort_key_id_if_sorted)

lemma sortTasks_short: "length ts \<le> 1 \<Longrightarrow> sortTasks ts = ts"
  by (cases ts) (simp_all add: sortTasks_def)

section \<open>Toggling a task\<close>

lemma toggleTasks_absent:
  "i \<notin> set (map task_id ts) \<Longrightarrow> toggleTasks env i ts w = (ts, w)"
  by (induction ts arbitrary: w) auto

lemma toggleTask_absent:
  assumes "i \<notin> set (map task_id (tasks w))"
  shows "toggleTask env i w = render env w"
  using toggleTasks_absent [OF assms, of env w] by (simp add: toggleTask_def)

text \<open>
  Claim C10, as the code has it. When no task of the list has the identifier,
  \<open>toggleTask\<close> changes nothing in the state except, possibly, the order of the tasks: the
  list holds the same tasks, the activity log has no new entry and no message is shown.
  When a filter of the view is set the state is the one it was given. When none is set,
  the \<open>render\<close> call at its end sorts \<open>state.tasks\<close> newest first (for creation instants that
  are numbers), so a list already in that order stays as it is.
\<close>

theorem C10_toggle_unknown_id:
  assumes "i \<notin> set (map task_id (tasks w))"
  shows "toggleTask env i w = w\<lparr>tasks := tasks (toggleTask env i w)\<rparr>
       \<and> mset (tasks (toggleTask env i w)) = mset (tasks w)
       \<and> activities (toggleTask env i w) = activities w
       \<and> shown (toggleTask env i w) = shown w
       \<and> (\<not> viewUnfiltered w \<longrightarrow> toggleTask env i w = w)
       \<and> (viewUnfiltered w \<and> createdAtNumbers (tasks w) \<longrightarrow>
            tasks (toggleTask env i w) = sort_key newestFirstKey (tasks w))
       \<and> (createdAtNumbers (tasks w) \<and> newestFirst (tasks w) \<longrightarrow> toggleTask env i w = w)"
proof -
  note r = toggleTask_absent [OF assms, of env]
  have 1: "toggleTask env i w = w\<lparr>tasks := tasks (toggleTask env i w)\<rparr>"
    unfolding r by (rule render_rest)
  have 2: "mset (tasks (toggleTask env i w)) = mset (tasks w)"
    unfolding r by (rule render_mset)
  have 3: "activities (toggleTask env i w) = activities w"
    and 4: "shown (toggleTask env i w) = shown w"
    unfolding r by (simp_all add: render_frame)
  have 5: "\<not> viewUnfiltered w \<longrightarrow> toggleTask env i w = w"
    unfolding r by (simp add: render_eq)
  have 6: "viewUnfiltered w \<and> createdAtNumbers (tasks w) \<longrightarrow>
            tasks (toggleTask env i w) = sort_key newestFirstKey (tasks w)"
    unfolding r by (simp add: render_eq sortTasks_def)
  have 7: "createdAtNumbers (tasks w) \<and> newestFirst (tasks w) \<longrightarrow> toggleTask env i w = w"
    unfolding r by (simp add: render_eq newestFirst_def sortTasks_sorted)
  show ?thesis
    using 1 2 3 4 5 6 7 by blast
qed

lemma twoTaskWorld_eval:
  "''zz'' \<notin> set (map task_id (tasks twoTaskWorld))"
  "''zz'' \<notin> set (map task_id (tasks activeFilterWorld))"
  "tasks twoTaskWorld = [olderTask, newerTask]"
  "viewUnfiltered twoTaskWorld"
  "\<not> viewUnfiltered activeFilterWorld"
  "createdAtNumbers (tasks twoTaskWorld)"
  "sortTasks (tasks twoTaskWorld) = [newerTask, olderTask]"
  by (simp_all add: twoTaskWorld_def activeFilterWorld_def initialWorld_def olderTask_def
        newerTask_def viewUnfiltered_def createdAtNumbers_def sortTasks_def newestFirstKey_def)

lemma pendingWorld_sorted:
  "''zz'' \<notin> set (map task_id (tasks pendingWorld))"
  "createdAtNumbers (tasks pendingWorld)"
  "newestFirst (tasks pendingWorld)"
  by (simp_all add: pendingWorld_def sampleTask_def createdAtNumbers_def newestFirst_def)

theorem C10_toggle_unknown_id_witness:
  "''zz'' \<notin> set (map task_id (tasks twoTaskWorld))
   \<and> viewUnfiltered twoTaskWorld
   \<and> createdAtNumbers (tasks twoTaskWorld)
   \<and> tasks (toggleTask testEnv ''zz'' twoTaskWorld) = sort_key newestFirstKey (tasks twoTaskWorld)
   \<and> activities (toggleTask testEnv ''zz'' twoTaskWorld) = activities twoTaskWorld
   \<and> ''zz'' \<notin> set (map task_id (tasks activeFilterWorld))
   \<and> \<not> viewUnfiltered activeFilterWorld
   \<and> toggleTask testEnv ''zz'' activeFilterWorld = activeFilterWorld
   \<and> ''zz'' \<notin> set (map task_id (tasks pendingWorld))
   \<and> createdAtNumbers (tasks pendingWorld)
   \<and> newestFirst (tasks pendingWorld)
   \<and> toggleTask testEnv ''zz'' pendingWorld = pendingWorld"
  using C10_toggle_unknown_id [OF twoTaskWorld_eval(1), of testEnv]
        C10_toggle_unknown_id [OF twoTaskWorld_eval(2), of testEnv]
        C10_toggle_unknown_id [OF pendingWorld_sorted(1), of testEnv]
        twoTaskWorld_eval pendingWorld_sorted
  by blast

text \<open>
  In the state whose tasks are the older and then the newer one, with no filter set,
  toggling an identifier that no task has swaps the two: the state is not the one given.
\<close>

theorem C10_toggle_unknown_id_counterexample:
  "''zz'' \<notin> set (map task_id (tasks twoTaskWorld))
   \<and> tasks twoTaskWorld = [olderTask, newerTask]
   \<and> tasks (toggleTask testEnv ''zz'' twoTaskWorld) = [newerTask, olderTask]
   \<and> toggleTask testEnv ''zz'' twoTaskWorld \<noteq> twoTaskWorld"
proof -
  have t: "tasks (toggleTask testEnv ''zz'' twoTaskWorld) = [newerTask, olderTask]"
    unfolding toggleTask_absent [OF twoTaskWorld_eval(1)]
    using twoTaskWorld_eval(4,7) by (simp add: render_eq)
  have "olderTask \<noteq> newerTask"
    by (simp add: olderTask_def newerTask_def)
  then have "tasks (toggleTask testEnv ''zz'' twoTaskWorld) \<noteq> tasks twoTaskWorld"
    unfolding t twoTaskWorld_eval(3) by simp
  then have "toggleTask testEnv ''zz'' twoTaskWorld \<noteq> twoTaskWorld"
    by auto
  then show ?thesis
    using t twoTaskWorld_eval(1,3) by blast
qed



lemma addActivity_frame:
  "timers (addActivity env ty i t d w) = timers w"
  "activeReminders (addActivity env ty i t d w) = activeReminders w"
  "nextTimeoutId (addActivity env ty i t d w) = nextTimeoutId w"
  "shown (addActivity env ty i t d w) = shown w"
  "tasks (addActivity env ty i t d w) = tasks w"
  by (simp_all add: addActivity_def Let_def)













section \<open>CSV: the title field out and back\<close>

lemma splitOn_nonempty: "splitOn c s \<noteq> []"
  by (induction s) (auto split: list.split)

lemma splitOn_append: "c \<notin> set xs \<Longrightarrow> splitOn c (xs @ c # ys) = xs # splitOn c ys"
  by (induction xs) (auto split: list.split simp: splitOn_nonempty)

lemma splitOn_no_sep: "c \<notin> set xs \<Longrightarrow> splitOn c xs = [xs]"
  by (induction xs) auto

lemma trim_between:
  assumes "\<not> isSpace a" and "\<not> isSpace b"
  shows "trim (xs @ a # ys @ b # zs) =
           dropWhile isSpace xs @ a # ys @ b # rev (dropWhile isSpace (rev zs))"
proof -
  have 1: "dropWhile isSpace (xs @ a # ys @ b # zs) = dropWhile isSpace xs @ a # ys @ b # zs"
    using assms(1) by (simp add: dropWhile_append3)
  have 2: "rev (dropWhile isSpace xs @ a # ys @ b # zs) =
             rev zs @ b # (rev ys @ a # rev (dropWhile isSpace xs))"
    by simp
  have 3: "dropWhile isSpace (rev zs @ b # (rev ys @ a # rev (dropWhile isSpace xs))) =
             dropWhile isSpace (rev zs) @ b # (rev ys @ a # rev (dropWhile isSpace xs))"
    using assms(2) by (simp add: dropWhile_append3)
  show ?thesis
    unfolding trim_def 1 2 3 by simp
qed

lemma join_row:
  "join sep [a, b, c, d, e, f] = a @ sep @ b @ sep @ c @ sep @ d @ sep @ e @ sep @ f"
  by simp

lemma sayHi_field:
  "csvTitleField (''Say '' @ [CHR 0x22] @ ''hi'' @ [CHR 0x22]) =
     [CHR 0x22] @ ''Say '' @ [CHR 0x22, CHR 0x22] @ ''hi'' @ [CHR 0x22, CHR 0x22, CHR 0x22]"
  by (simp add: csvTitleField_def escapeQuotes_def)

lemma sayHi_value:
  "stripQuotes (trim ([CHR 0x22] @ ''Say '' @ [CHR 0x22, CHR 0x22] @ ''hi'' @ [CHR 0x22, CHR 0x22, CHR 0x22]))
     = ''Say '' @ [CHR 0x22, CHR 0x22] @ ''hi'' @ [CHR 0x22, CHR 0x22]"
  by (simp add: stripQuotes_def trim_def isSpace_def)

lemma comma_not_space: "\<not> isSpace (CHR '','')"
  by (simp add: isSpace_def)

text \<open>The values the import reads from a row whose first piece has no comma and whose
  second piece is the exported title field.\<close>

lemma csvValues_row:
  assumes "CHR '','' \<notin> set i"
  shows "\<exists>i' vs. csvValues (trim (i @ '','' @
           ([CHR 0x22] @ ''Say '' @ [CHR 0x22, CHR 0x22] @ ''hi'' @ [CHR 0x22, CHR 0x22, CHR 0x22])
           @ '','' @ rest))
         = i' # (''Say '' @ [CHR 0x22, CHR 0x22] @ ''hi'' @ [CHR 0x22, CHR 0x22]) # vs \<and> vs \<noteq> []
         \<and> trim (i @ '','' @
           ([CHR 0x22] @ ''Say '' @ [CHR 0x22, CHR 0x22] @ ''hi'' @ [CHR 0x22, CHR 0x22, CHR 0x22])
           @ '','' @ rest) \<noteq> []"
proof -
  let ?f = "[CHR 0x22] @ ''Say '' @ [CHR 0x22, CHR 0x22] @ ''hi'' @ [CHR 0x22, CHR 0x22, CHR 0x22]"
  let ?i = "dropWhile isSpace i"
  let ?r = "rev (dropWhile isSpace (rev rest))"
  have t: "trim (i @ '','' @ ?f @ '','' @ rest) = ?i @ CHR '','' # ?f @ CHR '','' # ?r"
    using trim_between [OF comma_not_space comma_not_space, of i ?f rest] by simp
  have ni: "CHR '','' \<notin> set ?i"
    using assms set_dropWhileD by fastforce
  have nf: "CHR '','' \<notin> set ?f" by simp
  have s: "splitOn (CHR '','') (?i @ CHR '','' # ?f @ CHR '','' # ?r) = ?i # ?f # splitOn (CHR '','') ?r"
    using splitOn_append [OF ni, of "?f @ CHR '','' # ?r"] splitOn_append [OF nf, of ?r]
    by simp
  have "csvValues (trim (i @ '','' @ ?f @ '','' @ rest)) =
          stripQuotes (trim ?i) # stripQuotes (trim ?f) #
          map (\<lambda>v. stripQuotes (trim v)) (splitOn (CHR '','') ?r)"
    unfolding t csvValues_def s by simp
  moreover have "map (\<lambda>v. stripQuotes (trim v)) (splitOn (CHR '','') ?r) \<noteq> []"
    by (simp add: splitOn_nonempty)
  moreover have "trim (i @ '','' @ ?f @ '','' @ rest) \<noteq> []"
    unfolding t by simp
  ultimately show ?thesis
    using sayHi_value by auto
qed


lemma csvRow_shape:
  "\<exists>rest. csvRow env t = task_id t @ '','' @ csvTitleField (task_title t) @ '','' @ rest"
  unfolding csvRow_def join_row by blast

lemma csvTask_title:
  "vs \<noteq> [] \<Longrightarrow> s \<noteq> [] \<Longrightarrow> task_title (fst (csvTask env k (i # s # vs))) = s"
  by (simp add: csvTask_def valueAt_def nonEmpty_def)

lemma csvLines_sayHi_row:
  assumes title: "task_title t = ''Say '' @ [CHR 0x22] @ ''hi'' @ [CHR 0x22]"
    and id: "CHR '','' \<notin> set (task_id t)"
  shows "map task_title (fst (csvLines env' k [csvRow env t]))
           = [''Say '' @ [CHR 0x22, CHR 0x22] @ ''hi'' @ [CHR 0x22, CHR 0x22]]"
proof -
  obtain rest where row: "csvRow env t = task_id t @ '','' @ csvTitleField (task_title t) @ '','' @ rest"
    using csvRow_shape by blast
  have row': "csvRow env t = task_id t @ '','' @
      ([CHR 0x22] @ ''Say '' @ [CHR 0x22, CHR 0x22] @ ''hi'' @ [CHR 0x22, CHR 0x22, CHR 0x22])
      @ '','' @ rest"
    unfolding row title sayHi_field ..
  from csvValues_row [OF id, of rest] obtain i' vs where
    v: "csvValues (trim (csvRow env t)) =
          i' # (''Say '' @ [CHR 0x22, CHR 0x22] @ ''hi'' @ [CHR 0x22, CHR 0x22]) # vs"
    and ne: "vs \<noteq> []" and line: "trim (csvRow env t) \<noteq> []"
    unfolding row' by blast
  have len: "\<not> length (csvValues (trim (csvRow env t))) < 3"
    using ne unfolding v by (cases vs) simp_all
  have "task_title (fst (csvTask env' k (csvValues (trim (csvRow env t)))))
          = ''Say '' @ [CHR 0x22, CHR 0x22] @ ''hi'' @ [CHR 0x22, CHR 0x22]"
    unfolding v by (rule csvTask_title [OF ne]) simp
  then show ?thesis
    using line len by (simp add: Let_def case_prod_beta)
qed

lemma header_line:
  "CHR 0x0A \<notin> set (join '','' csvHeaders)"
  "length (splitOn (CHR '','') (join '','' csvHeaders)) = 6"
  by (simp_all add: csvHeaders_def)

lemma export_single:
  assumes "tasks w = [t]"
  shows "fst (exportToCSV env w) = join '','' csvHeaders @ CHR 0x0A # csvRow env t"
  using assms by (simp add: exportToCSV_def)

lemma csvLines_one_line: "length (fst (csvLines env k [row])) \<le> 1"
  by (simp add: Let_def case_prod_beta)

lemma render_short: "length (tasks w) \<le> 1 \<Longrightarrow> render env w = w"
  by (simp add: render_eq sortTasks_short)

lemma import_single:
  assumes nl: "CHR 0x0A \<notin> set row"
  shows "importFromCSV env (join '','' csvHeaders @ CHR 0x0A # row) True w0 =
           Inr ((addActivity env Import None None
                   (Some (numToString (int (length (fst (csvLines env (draws w0) [row])))) @
                          '' tareas importadas desde CSV''))
                   (w0\<lparr>draws := snd (csvLines env (draws w0) [row]),
                       tasks := fst (csvLines env (draws w0) [row])\<rparr>))
                \<lparr>shown := shown w0 @
                   [ShowSuccess ([CHR 0xA1] @ ''Importaci'' @ [CHR 0xF3] @ ''n exitosa!'')
                      (''Se importaron '' @
                       numToString (int (length (fst (csvLines env (draws w0) [row])))) @
                       '' tareas desde CSV'')]\<rparr>)"
proof -
  have l: "splitOn (CHR 0x0A) (join '','' csvHeaders @ CHR 0x0A # row) = [join '','' csvHeaders, row]"
    using splitOn_append [OF header_line(1), of row] splitOn_no_sep [OF nl] by simp
  have r: "render env (w0\<lparr>draws := snd (csvLines env (draws w0) [row]),
                            tasks := fst (csvLines env (draws w0) [row])\<rparr>)
           = w0\<lparr>draws := snd (csvLines env (draws w0) [row]),
                 tasks := fst (csvLines env (draws w0) [row])\<rparr>"
    using csvLines_one_line [of env "draws w0" row]
    by (intro render_short) (simp del: csvLines.simps)
  show ?thesis
    unfolding importFromCSV_def l
    by (simp add: Let_def header_line(2) case_prod_beta addActivity_frame r del: csvLines.simps)
qed


text \<open>
  Claim C2, as the code has it. For every task titled \<open>Say "hi"\<close>, the export renders the
  title field as \<open>"Say ""hi"""\<close>. When the task's identifier has no comma, the import
  loop reads from the exported row a task titled \<open>Say ""hi""\<close>: the enclosing quotes are
  removed and the doubled quotes stay doubled. When moreover the row has no line break
  and the task is the only one, importing the exported file succeeds and its one task
  has that title.
\<close>

theorem C2_csv_title_roundtrip:
  assumes title: "task_title t = ''Say '' @ [CHR 0x22] @ ''hi'' @ [CHR 0x22]"
    and id: "CHR '','' \<notin> set (task_id t)"
    and nl: "CHR 0x0A \<notin> set (csvRow env t)"
    and single: "tasks w = [t]"
  shows "csvTitleField (task_title t) =
           [CHR 0x22] @ ''Say '' @ [CHR 0x22, CHR 0x22] @ ''hi'' @ [CHR 0x22, CHR 0x22, CHR 0x22]
       \<and> map task_title (fst (csvLines env' k [csvRow env t]))
           = [''Say '' @ [CHR 0x22, CHR 0x22] @ ''hi'' @ [CHR 0x22, CHR 0x22]]
       \<and> \<not> isl (importFromCSV env' (fst (exportToCSV env w)) True w0)
       \<and> map task_title (tasks (projr (importFromCSV env' (fst (exportToCSV env w)) True w0)))
           = [''Say '' @ [CHR 0x22, CHR 0x22] @ ''hi'' @ [CHR 0x22, CHR 0x22]]"
proof (intro conjI)
  show "csvTitleField (task_title t) =
           [CHR 0x22] @ ''Say '' @ [CHR 0x22, CHR 0x22] @ ''hi'' @ [CHR 0x22, CHR 0x22, CHR 0x22]"
    unfolding title by (rule sayHi_field)
  show "map task_title (fst (csvLines env' k [csvRow env t]))
           = [''Say '' @ [CHR 0x22, CHR 0x22] @ ''hi'' @ [CHR 0x22, CHR 0x22]]"
    by (rule csvLines_sayHi_row [OF title id])
  note i = import_single [OF nl, of env' w0, folded export_single [OF single, of env]]
  show "\<not> isl (importFromCSV env' (fst (exportToCSV env w)) True w0)"
    unfolding i by simp
  show "map task_title (tasks (projr (importFromCSV env' (fst (exportToCSV env w)) True w0)))
           = [''Say '' @ [CHR 0x22, CHR 0x22] @ ''hi'' @ [CHR 0x22, CHR 0x22]]"
    unfolding i using csvLines_sayHi_row [OF title id, of env' "draws w0" env]
    by (simp add: addActivity_frame del: csvLines.simps)
qed

lemma sayHi_hyps:
  "task_title sayHiTask = ''Say '' @ [CHR 0x22] @ ''hi'' @ [CHR 0x22]"
  "CHR '','' \<notin> set (task_id sayHiTask)"
  "CHR 0x0A \<notin> set (csvRow testEnv sayHiTask)"
  "tasks sayHiWorld = [sayHiTask]"
  by (simp_all add: sayHiTask_def sayHiWorld_def csvRow_def csvTitleField_def escapeQuotes_def
        testEnv_def)

theorem C2_csv_title_roundtrip_witness:
  "task_title sayHiTask = ''Say '' @ [CHR 0x22] @ ''hi'' @ [CHR 0x22]
   \<and> CHR '','' \<notin> set (task_id sayHiTask)
   \<and> CHR 0x0A \<notin> set (csvRow testEnv sayHiTask)
   \<and> tasks sayHiWorld = [sayHiTask]
   \<and> csvTitleField (task_title sayHiTask) =
        [CHR 0x22] @ ''Say '' @ [CHR 0x22, CHR 0x22] @ ''hi'' @ [CHR 0x22, CHR 0x22, CHR 0x22]
   \<and> map task_title
        (tasks (projr (importFromCSV testEnv (fst (exportToCSV testEnv sayHiWorld)) True sayHiWorld)))
        = [''Say '' @ [CHR 0x22, CHR 0x22] @ ''hi'' @ [CHR 0x22, CHR 0x22]]"
  using C2_csv_title_roundtrip [OF sayHi_hyps, of testEnv 0 sayHiWorld] sayHi_hyps
  by blast

text \<open>
  Exporting the state whose only task is titled \<open>Say "hi"\<close> and importing the file gives a
  task titled \<open>Say ""hi""\<close>, which is not the title that was exported.
\<close>

theorem C2_csv_title_counterexample:
  "\<not> isl (importFromCSV testEnv (fst (exportToCSV testEnv sayHiWorld)) True sayHiWorld)
   \<and> map task_title
        (tasks (projr (importFromCSV testEnv (fst (exportToCSV testEnv sayHiWorld)) True sayHiWorld)))
        = [''Say '' @ [CHR 0x22, CHR 0x22] @ ''hi'' @ [CHR 0x22, CHR 0x22]]
   \<and> map task_title
        (tasks (projr (importFromCSV testEnv (fst (exportToCSV testEnv sayHiWorld)) True sayHiWorld)))
        \<noteq> map task_title (tasks sayHiWorld)"
proof -
  note i = import_single [OF sayHi_hyps(3), of testEnv sayHiWorld,
                          folded export_single [OF sayHi_hyps(4), of testEnv]]
  have t: "map task_title
        (tasks (projr (importFromCSV testEnv (fst (exportToCSV testEnv sayHiWorld)) True sayHiWorld)))
        = [''Say '' @ [CHR 0x22, CHR 0x22] @ ''hi'' @ [CHR 0x22, CHR 0x22]]"
    unfolding i
    using csvLines_sayHi_row [OF sayHi_hyps(1) sayHi_hyps(2), of testEnv "draws sayHiWorld" testEnv]
    by (simp add: addActivity_frame del: csvLines.simps)
  have n: "\<not> isl (importFromCSV testEnv (fst (exportToCSV testEnv sayHiWorld)) True sayHiWorld)"
    unfolding i by simp
  have "map task_title (tasks sayHiWorld) = [''Say '' @ [CHR 0x22] @ ''hi'' @ [CHR 0x22]]"
    by (simp add: sayHiWorld_def sayHiTask_def)
  then show ?thesis using t n by simp
qed


section \<open>Completion instant and completion flag\<close>

lemma scheduleReminder_tasks:
  "tasks (snd (scheduleReminder env i t d w)) = tasks w"
  by (simp add: scheduleReminder_def Let_def cancelReminder_def split: option.split)

lemma addTask_tasks:
  "list_all completionInv (tasks w) \<Longrightarrow>
   list_all completionInv (tasks (addTask env title dateValue timeValue w))"
  by (simp add: addTask_def Let_def render_list_all addActivity_frame scheduleReminder_tasks
      completionInv_def split: option.split)

lemma toggleOne_inv: "completionInv (fst (toggleOne env t w))"
  by (simp add: toggleOne_def Let_def completionInv_def)

lemma toggleTasks_inv:
  "list_all completionInv ts \<Longrightarrow> list_all completionInv (fst (toggleTasks env i ts w))"
  by (induction ts arbitrary: w) (simp_all add: case_prod_beta toggleOne_inv)

lemma toggleTask_inv:
  "list_all completionInv (tasks w) \<Longrightarrow> list_all completionInv (tasks (toggleTask env i w))"
  by (simp add: toggleTask_def case_prod_beta render_list_all toggleTasks_inv)

lemma editTaskTitle_inv:
  "list_all completionInv (tasks w) \<Longrightarrow>
   list_all completionInv (tasks (editTaskTitle env i isConfirmed val w))"
  by (auto simp: editTaskTitle_def Let_def addActivity_frame list_all_iff render_set
      completionInv_def split: option.split)

lemma taskOp_inv:
  "list_all completionInv (tasks w) \<Longrightarrow> list_all completionInv (tasks (taskOp c w))"
  by (cases c) (simp_all add: addTask_tasks toggleTask_inv editTaskTitle_inv)

lemma taskOps_inv:
  "list_all completionInv (tasks w) \<Longrightarrow> list_all completionInv (tasks (taskOps cs w))"
  by (induction cs arbitrary: w) (simp_all add: taskOp_inv)

text \<open>
  Claim C3, as the code has it. Every task reachable from the empty repository through
  \<open>addTask\<close>, \<open>toggleTask\<close> and \<open>editTaskTitle\<close> has a completion instant exactly when it
  is done, and these operations keep that true of any repository in which it holds. The
  imports build each task from the file: a task of a JSON file satisfies it exactly when
  the file gives it a truthy completion date if and only if it is done, and a task of a
  CSV row exactly when the fifth value is present and not empty if and only if the third
  value contains \<open>completada\<close>.
\<close>

theorem C3_completion_invariant:
  "list_all completionInv (tasks (taskOps cs initialWorld))
   \<and> (list_all completionInv (tasks w) \<longrightarrow> list_all completionInv (tasks (taskOps cs w)))
   \<and> (completionInv (jsonTask env tj) \<longleftrightarrow>
        ((case tj_completedAt tj of None \<Rightarrow> False | Some c \<Rightarrow> truthyDate c) \<longleftrightarrow> tj_done tj))
   \<and> (completionInv (fst (csvTask env k values)) \<longleftrightarrow>
        (nonEmpty (valueAt values 4) \<noteq> None \<longleftrightarrow>
         (case valueAt values 2 of
            None \<Rightarrow> False
          | Some s \<Rightarrow> includesStr (toLowerCase s) ''completada'')))"
proof (intro conjI impI)
  have "list_all completionInv (tasks initialWorld)"
    by (simp add: initialWorld_def)
  then show "list_all completionInv (tasks (taskOps cs initialWorld))"
    by (rule taskOps_inv)
  show "list_all completionInv (tasks (taskOps cs w))" if "list_all completionInv (tasks w)"
    using that by (rule taskOps_inv)
  show "completionInv (jsonTask env tj) \<longleftrightarrow>
        ((case tj_completedAt tj of None \<Rightarrow> False | Some c \<Rightarrow> truthyDate c) \<longleftrightarrow> tj_done tj)"
    by (simp add: completionInv_def jsonTask_def split: option.split)
  show "completionInv (fst (csvTask env k values)) \<longleftrightarrow>
        (nonEmpty (valueAt values 4) \<noteq> None \<longleftrightarrow>
         (case valueAt values 2 of
            None \<Rightarrow> False
          | Some s \<Rightarrow> includesStr (toLowerCase s) ''completada''))"
    by (simp add: completionInv_def csvTask_def split: option.split)
qed

lemma sampleOps_eval:
  "list_all completionInv (tasks pendingWorld)"
  "\<not> completionInv (jsonTask testEnv staleTaskJSON)"
  "nonEmpty (valueAt [''t1'', ''Comprar pan'', ''Completada''] 4) = None"
  by (simp_all add: pendingWorld_def sampleTask_def completionInv_def jsonTask_def
        staleTaskJSON_def nonEmpty_def valueAt_def)

lemma completada_eval: "includesStr (toLowerCase ''Completada'') ''completada''"
  by code_simp

lemma csv_row_eval:
  "valueAt [''t1'', ''Comprar pan'', ''Completada''] 2 = Some ''Completada''"
  by (simp add: valueAt_def)

theorem C3_completion_invariant_witness:
  "list_all completionInv (tasks pendingWorld)
   \<and> list_all completionInv (tasks (taskOps sampleOps pendingWorld))
   \<and> \<not> completionInv (jsonTask testEnv staleTaskJSON)
   \<and> \<not> completionInv (fst (csvTask testEnv 0 [''t1'', ''Comprar pan'', ''Completada'']))"
proof -
  note c3 = C3_completion_invariant
              [of sampleOps pendingWorld testEnv staleTaskJSON 0
                  "[''t1'', ''Comprar pan'', ''Completada'']"]
  have "\<not> completionInv (fst (csvTask testEnv 0 [''t1'', ''Comprar pan'', ''Completada'']))"
    using c3 by (simp only: sampleOps_eval completada_eval csv_row_eval option.simps simp_thms)
  then show ?thesis
    using c3 sampleOps_eval(1,2) by blast
qed


text \<open>
  Importing the CSV file whose one row is \<open>t1,Comprar pan,Completada\<close> into the empty
  repository succeeds and gives a task that is done and has no completion instant.
\<close>

theorem C3_csv_import_counterexample:
  "\<not> isl (importFromCSV testEnv doneRowCsv True initialWorld)
   \<and> map task_done (tasks (projr (importFromCSV testEnv doneRowCsv True initialWorld))) = [True]
   \<and> map task_completedAt (tasks (projr (importFromCSV testEnv doneRowCsv True initialWorld))) = [None]
   \<and> \<not> list_all completionInv (tasks (projr (importFromCSV testEnv doneRowCsv True initialWorld)))"
  by code_simp


section \<open>Statistics\<close>

text \<open>
  Claim C1 at its input: three completed tasks, completed today, yesterday and three days
  ago. \<open>calculateStreakDays\<close> returns 1, not 2: after counting today it both moves the
  reference day back and expects the next difference to equal the streak, so yesterday's
  task has difference 0 against streak 1 and is passed over, and the task of three days
  ago has difference 2 and ends the loop.
\<close>

theorem C1_streak_gap_evaluates_to_one:
  "calculateStreakDays testEnv streakTasks = 1"
  by (simp add: calculateStreakDays_def streakTasks_def completedTask_def testEnv_def
      truthyOpt_def completedAtOf_def startOfDay_def Let_def)

text \<open>The same slip on two inputs: completions today and yesterday count as a streak of
  1, completions today and two days ago as a streak of 2.\<close>

lemma streak_counts_every_other_day:
  "calculateStreakDays testEnv [completedTask ''a'' 903600000, completedTask ''b'' 820800000] = 1"
  "calculateStreakDays testEnv [completedTask ''a'' 903600000, completedTask ''b'' 734400000] = 2"
  by (simp_all add: calculateStreakDays_def completedTask_def testEnv_def
      truthyOpt_def completedAtOf_def startOfDay_def Let_def)

subsection \<open>Rounding to double precision\<close>















subsection \<open>The productivity score\<close>





















end
